theory Spec2Isabelle
  imports Complex_Main "HOL-Library.AList"
begin

chapter \<open>Dumroo AI client: a shallow embedding\<close>

section \<open>JavaScript values\<close>

text \<open>
  The client handles JSON data received from the server. A value is \<open>undefined\<close>,
  \<open>null\<close>, a boolean, a number, a string, an array or a plain object. Numbers in
  the data are modelled as integers (grades, scores and counts of the data set are whole
  numbers); strings are byte lists. An object is the list of its own properties in the order
  they were created, with distinct keys.
\<close>

datatype jsval =
    Undefined
  | JNull
  | JBool bool
  | JNum int
  | JStr string
  | JArr "jsval list"
  | JObj "(string \<times> jsval) list"

text \<open>ToBoolean: what \<open>if (v)\<close>, \<open>!v\<close> and \<open>v || w\<close> test.\<close>

fun truthy :: "jsval \<Rightarrow> bool" where
  "truthy Undefined = False"
| "truthy JNull = False"
| "truthy (JBool b) = b"
| "truthy (JNum n) = (n \<noteq> 0)"
| "truthy (JStr s) = (s \<noteq> [])"
| "truthy (JArr xs) = True"
| "truthy (JObj kvs) = True"

text \<open>\<open>a || b\<close>: the left operand when it is truthy, the right one otherwise.\<close>

definition js_or :: "jsval \<Rightarrow> jsval \<Rightarrow> jsval" where
  "js_or a b = (if truthy a then a else b)"

text \<open>Number-to-string conversion of an integer: decimal digits, a minus sign first.\<close>

definition digit_char :: "nat \<Rightarrow> char" where
  "digit_char d = char_of (48 + d)"

fun decimal :: "nat \<Rightarrow> string" where
  "decimal n = (if n < 10 then [digit_char n] else decimal (n div 10) @ [digit_char (n mod 10)])"

definition string_of_int :: "int \<Rightarrow> string" where
  "string_of_int i = (if i < 0 then CHR ''-'' # decimal (nat (- i)) else decimal (nat i))"

text \<open>\<open>Array.prototype.join\<close> with the separator \<open>","\<close>.\<close>

fun join_comma :: "string list \<Rightarrow> string" where
  "join_comma [] = []"
| "join_comma [s] = s"
| "join_comma (s # t # ss) = s @ '','' @ join_comma (t # ss)"

text \<open>
  ToString, as applied by \<open>String(v)\<close>, by string concatenation, by template literals and
  by the conversion of a value to a property key. An array is its elements joined by commas,
  \<open>null\<close> and \<open>undefined\<close> elements being empty; a plain object (one that does not
  shadow \<open>toString\<close> or \<open>valueOf\<close>) is \<open>[object Object]\<close>.
\<close>

fun to_string :: "jsval \<Rightarrow> string" where
  "to_string Undefined = ''undefined''"
| "to_string JNull = ''null''"
| "to_string (JBool b) = (if b then ''true'' else ''false'')"
| "to_string (JNum n) = string_of_int n"
| "to_string (JStr s) = s"
| "to_string (JArr xs) =
     join_comma (map (\<lambda>x. if x = Undefined \<or> x = JNull then [] else to_string x) xs)"
| "to_string (JObj kvs) = ''[object Object]''"

subsection \<open>Objects and the order of their keys\<close>

text \<open>
  A property read \<open>o[k]\<close> on an object of the data: the own property, \<open>undefined\<close> when
  there is none. (The names read from data objects in this program are field names of the
  records; none of them is a member of \<open>Object.prototype\<close>.)
\<close>

definition getp :: "(string \<times> jsval) list \<Rightarrow> string \<Rightarrow> jsval" where
  "getp obj k = (case map_of obj k of None \<Rightarrow> Undefined | Some v \<Rightarrow> v)"

text \<open>
  \<open>Object.keys\<close> and \<open>Object.entries\<close> list the own string keys in the order of
  OrdinaryOwnPropertyKeys: first the keys that are array indices (canonical decimal numerals
  below \<open>2^32 - 1\<close>), in ascending numeric order, then every other key in the order of
  its creation.
\<close>

definition is_digit :: "char \<Rightarrow> bool" where
  "is_digit c = (48 \<le> (of_char c :: nat) \<and> (of_char c :: nat) \<le> 57)"

definition index_value :: "string \<Rightarrow> int" where
  "index_value s = foldl (\<lambda>n c. 10 * n + (of_char c - 48)) 0 s"

definition is_array_index :: "string \<Rightarrow> bool" where
  "is_array_index s =
     (s \<noteq> [] \<and> list_all is_digit s \<and> (s = ''0'' \<or> hd s \<noteq> CHR ''0'')
      \<and> index_value s < 4294967295)"

definition own_entries :: "(string \<times> 'a) list \<Rightarrow> (string \<times> 'a) list" where
  "own_entries obj =
     sort_key (\<lambda>e. index_value (fst e)) (filter (\<lambda>e. is_array_index (fst e)) obj)
     @ filter (\<lambda>e. \<not> is_array_index (fst e)) obj"

definition own_keys :: "(string \<times> 'a) list \<Rightarrow> string list" where
  "own_keys obj = map fst (own_entries obj)"

section \<open>The results panel\<close>

text \<open>A result row is an object of the data: a student record as a key-value map.\<close>

type_synonym row = "(string \<times> jsval) list"

datatype direction = Asc | Desc

text \<open>\<open>sortConfig\<close>: \<open>key\<close> is \<open>null\<close> (\<open>None\<close>) until a column header is clicked.\<close>

record sort_config =
  key :: "string option"
  direction :: direction

text \<open>
  The two string methods of the host that the comparator calls. Their results depend on the
  host's locale and Unicode tables, so they are parameters of the model.
\<close>

record host =
  toLowerCase :: "string \<Rightarrow> string"
  localeCompare :: "string \<Rightarrow> string \<Rightarrow> int"

text \<open>\<open>headers\<close>: the keys of the first row, or none.\<close>

definition headers :: "row list option \<Rightarrow> string list" where
  "headers results =
     (case results of None \<Rightarrow> [] | Some [] \<Rightarrow> [] | Some (r # rs) \<Rightarrow> own_keys r)"

definition visibleHeaders :: "string set \<Rightarrow> row list option \<Rightarrow> string list" where
  "visibleHeaders hiddenColumns results =
     filter (\<lambda>h. h \<notin> hiddenColumns) (headers results)"

text \<open>The comparator passed to \<open>sort\<close>, for the sort key \<open>k\<close>.\<close>

definition compare_rows :: "host \<Rightarrow> direction \<Rightarrow> string \<Rightarrow> row \<Rightarrow> row \<Rightarrow> int" where
  "compare_rows h dir k a b =
     (let aVal = getp a k; bVal = getp b k in
      case (aVal, bVal) of
        (JNum x, JNum y) \<Rightarrow> (if dir = Asc then x - y else y - x)
      | _ \<Rightarrow>
         (let aStr = toLowerCase h (to_string aVal); bStr = toLowerCase h (to_string bVal)
          in if dir = Asc then localeCompare h aStr bStr else localeCompare h bStr aStr))"

text \<open>
  \<open>Array.prototype.sort\<close> with a comparator. The language requires a stable sort; this is
  the stable insertion sort (for a comparator that is not a consistent order the language
  leaves the result to the implementation, and it is a permutation in every case).
\<close>

fun insert_by :: "('a \<Rightarrow> 'a \<Rightarrow> int) \<Rightarrow> 'a \<Rightarrow> 'a list \<Rightarrow> 'a list" where
  "insert_by c x [] = [x]"
| "insert_by c x (y # ys) = (if c x y \<le> 0 then x # y # ys else y # insert_by c x ys)"

definition array_sort :: "('a \<Rightarrow> 'a \<Rightarrow> int) \<Rightarrow> 'a list \<Rightarrow> 'a list" where
  "array_sort c xs = foldr (insert_by c) xs []"

text \<open>
  \<open>sortedResults\<close>: the rows as received while no sort key is set (\<open>null\<close> and the empty
  string are falsy) or there is nothing to sort; a sorted copy otherwise.
\<close>

definition sortedResults :: "host \<Rightarrow> sort_config \<Rightarrow> row list option \<Rightarrow> row list" where
  "sortedResults h cfg results =
     (case results of
        None \<Rightarrow> []
      | Some rs \<Rightarrow>
         (case key cfg of
            None \<Rightarrow> rs
          | Some k \<Rightarrow>
             if k = [] \<or> rs = [] then rs
             else array_sort (compare_rows h (direction cfg) k) rs))"

text \<open>\<open>handleSort\<close>: a click on a column header.\<close>

definition handleSort :: "string \<Rightarrow> sort_config \<Rightarrow> sort_config" where
  "handleSort k prev =
     \<lparr>key = Some k,
      direction = (if key prev = Some k \<and> direction prev = Asc then Desc else Asc)\<rparr>"

definition toggleColumnVisibility :: "string \<Rightarrow> string set \<Rightarrow> string set" where
  "toggleColumnVisibility col hiddenColumns =
     (if col \<in> hiddenColumns then hiddenColumns - {col} else insert col hiddenColumns)"

text \<open>
  What the panel renders. A table cell shows a yes/no badge for a boolean and the value
  itself otherwise; a body row carries its number \<open>i + 1\<close>.
\<close>

datatype cell = Badge bool | Plain jsval

definition cell_of :: "row \<Rightarrow> string \<Rightarrow> cell" where
  "cell_of r h = (case getp r h of JBool b \<Rightarrow> Badge b | v \<Rightarrow> Plain v)"

definition column_label :: "string \<Rightarrow> string" where
  "column_label col = map (\<lambda>c. if c = CHR ''_'' then CHR '' '' else c) col"

record results_table =
  found_count :: nat
  found_plural :: bool
  toggles :: "(string \<times> bool) list"
  columns :: "string list"
  body :: "(nat \<times> cell list) list"
  showing_count :: nat
  showing_of :: nat
  visible_columns :: nat
  all_columns :: nat

datatype panel = NoResults | ResultsTable results_table

definition ResultsPanel :: "host \<Rightarrow> sort_config \<Rightarrow> string set \<Rightarrow> row list option \<Rightarrow> panel" where
  "ResultsPanel h cfg hiddenColumns results =
     (case results of
        None \<Rightarrow> NoResults
      | Some [] \<Rightarrow> NoResults
      | Some (r # rs) \<Rightarrow>
         (let sorted = sortedResults h cfg results;
              hs = headers results;
              vs = visibleHeaders hiddenColumns results
          in ResultsTable
               \<lparr>found_count = length sorted,
                found_plural = (length sorted \<noteq> 1),
                toggles = map (\<lambda>col. (col, col \<in> hiddenColumns)) hs,
                columns = vs,
                body = map (\<lambda>(i, row). (i + 1, map (cell_of row) vs)) (enumerate 0 sorted),
                showing_count = length sorted,
                showing_of = length sorted,
                visible_columns = length vs,
                all_columns = length hs\<rparr>))"

section \<open>The API client\<close>

text \<open>
  A failure that a JavaScript expression raises: a \<open>TypeError\<close> of the engine with its
  message, or a value thrown by the program.
\<close>

datatype js_error = TypeError string | Thrown jsval

definition nullish :: "jsval \<Rightarrow> bool" where
  "nullish v = (v = Undefined \<or> v = JNull)"

text \<open>
  \<open>v?.k\<close>: \<open>undefined\<close> when \<open>v\<close> is \<open>null\<close> or \<open>undefined\<close>, the
  property otherwise. The names read this way (\<open>response\<close>, \<open>data\<close>, \<open>detail\<close>,
  \<open>message\<close>, \<open>error\<close>, \<open>condition\<close>, \<open>results\<close>, \<open>count\<close>) are defined by
  no prototype of the language, so a primitive, an array and an object without the key all
  give \<open>undefined\<close>.
\<close>

definition get_opt :: "jsval \<Rightarrow> string \<Rightarrow> jsval" where
  "get_opt v k = (case v of JObj kvs \<Rightarrow> getp kvs k | _ \<Rightarrow> Undefined)"

text \<open>\<open>v.k\<close>: reading a property of \<open>null\<close> or \<open>undefined\<close> raises a TypeError.\<close>

definition cannot_read :: "string \<Rightarrow> string \<Rightarrow> string" where
  "cannot_read what k =
     ''Cannot read properties of '' @ what @ '' (reading '' @ [CHR 0x27] @ k @ [CHR 0x27] @ '')''"

definition get :: "jsval \<Rightarrow> string \<Rightarrow> js_error + jsval" where
  "get v k =
     (if nullish v then Inl (TypeError (cannot_read (to_string v) k)) else Inr (get_opt v k))"

text \<open>
  The rejection that axios hands to the response interceptor: an error object with a
  \<open>message\<close> and, when the server answered, a \<open>response\<close> whose \<open>data\<close> is the
  parsed body. A request ends fulfilled with the body of the response, or rejected.
\<close>

record axios_error =
  message :: string
  response_data :: "jsval option"

datatype outcome = Fulfilled jsval | Rejected axios_error

text \<open>
  \<open>handleError\<close> always throws; the model returns the value it throws. \<open>now\<close> is the
  ISO timestamp that \<open>new Date().toISOString()\<close> gives.
\<close>

definition handleError :: "string \<Rightarrow> axios_error \<Rightarrow> jsval" where
  "handleError now error =
     (let network =
        JObj [(''error'', js_or (JStr (message error)) (JStr ''Network error'')),
              (''code'', JStr ''NETWORK_ERROR''),
              (''timestamp'', JStr now)]
      in case response_data error of
           None \<Rightarrow> network
         | Some d \<Rightarrow> if truthy d then d else network)"

text \<open>The \<open>catch\<close> clause of \<open>postQuery\<close>, applied to the value that was thrown.\<close>

definition postQuery_catch :: "string \<Rightarrow> jsval \<Rightarrow> js_error + jsval" where
  "postQuery_catch now error =
     (case get error ''response'' of
        Inl t \<Rightarrow> Inl t
      | Inr resp \<Rightarrow>
         (let errorData = js_or (get_opt resp ''data'') (JObj []) in
          case get errorData ''detail'' of
            Inl t \<Rightarrow> Inl t
          | Inr detail \<Rightarrow>
             (case (if truthy detail then Inr detail else get error ''message'') of
                Inl t \<Rightarrow> Inl t
              | Inr m \<Rightarrow>
                 Inr (JObj [(''error'', js_or m (JStr ''Failed to process query'')),
                            (''condition'', JStr []),
                            (''results'', JArr []),
                            (''count'', JNum 0),
                            (''timestamp'', JStr now)]))))"

text \<open>
  \<open>postQuery\<close>: the body of the response when the request is fulfilled; when it is
  rejected, the interceptor's \<open>handleError\<close> throws and the \<open>catch\<close> clause answers.
  \<open>Inl\<close> is a rejected promise, \<open>Inr\<close> the value the promise resolves with.
\<close>

definition postQuery :: "string \<Rightarrow> outcome \<Rightarrow> js_error + jsval" where
  "postQuery now out =
     (case out of
        Fulfilled d \<Rightarrow> Inr d
      | Rejected e \<Rightarrow> postQuery_catch now (handleError now e))"

text \<open>
  The answer of the \<open>catch\<close> clause for a given error value, and the error value it
  computes from a rejection: \<open>errorData.detail || error.message || 'Failed to process
  query'\<close>, read from the value that \<open>handleError\<close> threw.
\<close>

definition failure_answer :: "string \<Rightarrow> jsval \<Rightarrow> jsval" where
  "failure_answer now err =
     JObj [(''error'', err), (''condition'', JStr []), (''results'', JArr []),
           (''count'', JNum 0), (''timestamp'', JStr now)]"

definition failure_error :: "string \<Rightarrow> axios_error \<Rightarrow> jsval" where
  "failure_error now e =
     (let thrown = handleError now e in
      js_or (js_or (get_opt (get_opt (get_opt thrown ''response'') ''data'') ''detail'')
                   (get_opt thrown ''message''))
            (JStr ''Failed to process query''))"

text \<open>Strings, and strings that are not empty.\<close>

definition is_nonempty_string :: "jsval \<Rightarrow> bool" where
  "is_nonempty_string v = (case v of JStr s \<Rightarrow> s \<noteq> [] | _ \<Rightarrow> False)"

definition is_string :: "jsval \<Rightarrow> bool" where
  "is_string v = (case v of JStr s \<Rightarrow> True | _ \<Rightarrow> False)"

section \<open>The chat panel\<close>

text \<open>The role selected in the role selector: \<open>null\<close> stands for all grades or classes.\<close>

record role =
  grade :: jsval
  class' :: jsval

datatype sender = User | Bot

record chat_message =
  sender :: sender
  text' :: string
  timestamp :: nat
  isError :: bool
  count :: jsval

text \<open>
  The state that \<open>handleSend\<close> reads and sets: the panel's own \<open>input\<close>,
  \<open>loading\<close> and \<open>error\<close>, and the application's \<open>messages\<close>, \<open>results\<close> and
  \<open>condition\<close>.
\<close>

record chat_state =
  input :: string
  loading :: bool
  error :: jsval
  messages :: "chat_message list"
  results :: jsval
  condition :: jsval

text \<open>\<open>String.prototype.trim\<close> on the white space of ASCII.\<close>

definition is_space :: "char \<Rightarrow> bool" where
  "is_space c = ((of_char c :: nat) \<in> {9, 10, 11, 12, 13, 32})"

definition trim :: "string \<Rightarrow> string" where
  "trim s = rev (dropWhile is_space (rev (dropWhile is_space s)))"

text \<open>The body of the request: the query text, the role and the session.\<close>

definition query_request :: "string \<Rightarrow> role \<Rightarrow> string \<Rightarrow> jsval" where
  "query_request query r sessionId =
     JObj [(''query'', JStr query),
           (''role'', JObj [(''grade'', grade r), (''class_name'', class' r)]),
           (''sessionId'', JStr sessionId)]"

text \<open>The three literals of the bot's messages, as the bytes of the source file.\<close>

definition error_text :: "jsval \<Rightarrow> string" where
  "error_text e = [CHR 0xE2, CHR 0x9D, CHR 0x8C] @ '' Error: '' @ to_string e"

definition found_text :: "jsval \<Rightarrow> jsval \<Rightarrow> string" where
  "found_text n cond =
     [CHR 0xE2, CHR 0x9C, CHR 0x85] @ '' Found '' @ to_string (js_or n (JNum 0))
     @ '' result(s)'' @ [CHR 0x0A] @ ''Filter: '' @ [CHR 0x60] @ to_string cond @ [CHR 0x60]"

definition network_text :: string where
  "network_text =
     [CHR 0xE2, CHR 0x9A, CHR 0xA0, CHR 0xEF, CHR 0xB8, CHR 0x8F]
     @ '' Network error - Please try again''"

text \<open>
  What one call of \<open>handleSend\<close> leaves behind: the state, the request bodies it posted,
  and the error that escaped it, if any.
\<close>

record send_result =
  state :: chat_state
  posted :: "jsval list"
  escaped :: "js_error option"

text \<open>The \<open>catch\<close> clause of \<open>handleSend\<close>; \<open>err.message\<close> can itself raise.\<close>

definition handleSend_catch :: "nat \<Rightarrow> js_error \<Rightarrow> chat_state \<Rightarrow> chat_state \<times> js_error option" where
  "handleSend_catch t err st =
     (case (case err of TypeError m \<Rightarrow> Inr (JStr m) | Thrown v \<Rightarrow> get v ''message'') of
        Inl e \<Rightarrow> (st, Some e)
      | Inr m \<Rightarrow>
         (st\<lparr>error := js_or m (JStr ''Network error''),
             messages := messages st @
               [\<lparr>sender = Bot, text' = network_text, timestamp = t, isError = True,
                 count = Undefined\<rparr>]\<rparr>,
          None))"

text \<open>The \<open>try\<close> block after the answer \<open>res\<close> has arrived.\<close>

definition handleSend_try :: "nat \<Rightarrow> jsval \<Rightarrow> chat_state \<Rightarrow> js_error + chat_state" where
  "handleSend_try t res st =
     (case get res ''error'' of
        Inl e \<Rightarrow> Inl e
      | Inr err \<Rightarrow>
         if truthy err then
           Inr (st\<lparr>error := err,
                   messages := messages st @
                     [\<lparr>sender = Bot, text' = error_text err, timestamp = t, isError = True,
                       count = Undefined\<rparr>]\<rparr>)
         else
           (let cond = js_or (get_opt res ''condition'') (JStr []) in
            Inr (st\<lparr>condition := cond,
                    results := js_or (get_opt res ''results'') (JArr []),
                    messages := messages st @
                      [\<lparr>sender = Bot, text' = found_text (get_opt res ''count'') cond,
                        timestamp = t, isError = False, count = get_opt res ''count''\<rparr>]\<rparr>)))"

text \<open>
  \<open>handleSend\<close>. \<open>post\<close> is \<open>api.postQuery\<close>: it maps the request body to the
  promise's result. \<open>t0\<close> and \<open>t1\<close> are the clock when the user's message and the
  bot's message are created. Nothing happens when the input is blank.
\<close>

definition handleSend ::
  "(jsval \<Rightarrow> js_error + jsval) \<Rightarrow> nat \<Rightarrow> nat \<Rightarrow> role \<Rightarrow> string \<Rightarrow> chat_state \<Rightarrow> send_result" where
  "handleSend post t0 t1 r sessionId st =
     (if trim (input st) = [] then \<lparr>state = st, posted = [], escaped = None\<rparr>
      else
        (let userMsg = \<lparr>sender = User, text' = input st, timestamp = t0, isError = False,
                        count = Undefined\<rparr>;
             st1 = st\<lparr>error := JStr [], messages := messages st @ [userMsg],
                      input := [], loading := True\<rparr>;
             req = query_request (input st) r sessionId;
             (st2, esc) =
               (case post req of
                  Inl e \<Rightarrow> handleSend_catch t1 e st1
                | Inr res \<Rightarrow>
                   (case handleSend_try t1 res st1 of
                      Inl e \<Rightarrow> handleSend_catch t1 e st1
                    | Inr st' \<Rightarrow> (st', None)))
         in \<lparr>state = st2\<lparr>loading := False\<rparr>, posted = [req], escaped = esc\<rparr>))"

section \<open>The dashboard's aggregates\<close>

text \<open>
  A JavaScript number as far as the aggregates need it: a rational (doubles are idealised
  as exact) or \<open>NaN\<close>.
\<close>

datatype jsnum = Fin rat | NaN

fun num_add :: "jsnum \<Rightarrow> jsnum \<Rightarrow> jsnum" where
  "num_add (Fin a) (Fin b) = Fin (a + b)"
| "num_add _ _ = NaN"

text \<open>
  Division. A zero divisor gives an infinity or \<open>NaN\<close> in JavaScript; the model has no
  infinities and answers \<open>NaN\<close> (the aggregates never divide by zero, see
  \<open>scores_count_positive\<close>).
\<close>

fun num_div :: "jsnum \<Rightarrow> jsnum \<Rightarrow> jsnum" where
  "num_div (Fin a) (Fin b) = (if b = 0 then NaN else Fin (a / b))"
| "num_div _ _ = NaN"

text \<open>
  \<open>+(x).toFixed(1)\<close>: the nearest multiple of one tenth, the larger magnitude on a tie;
  from \<open>10^21\<close> on \<open>toFixed\<close> prints the number itself.
\<close>

fun toFixed1 :: "jsnum \<Rightarrow> jsnum" where
  "toFixed1 (Fin q) =
     (if 10 ^ 21 \<le> \<bar>q\<bar> then Fin q
      else Fin (sgn q * of_int \<lfloor>\<bar>q\<bar> * 10 + 1 / 2\<rfloor> / 10))"
| "toFixed1 NaN = NaN"

text \<open>
  \<open>Number(s)\<close> for a string: white space is trimmed, the empty string is zero, and a
  decimal literal with an optional sign and an optional fraction is its value. Exponents,
  \<open>Infinity\<close> and the prefixed radix literals are not modelled and read as \<open>NaN\<close>.
\<close>

definition unsigned_decimal :: "string \<Rightarrow> jsnum" where
  "unsigned_decimal s =
     (let ip = takeWhile is_digit s; rest = dropWhile is_digit s in
      if rest = [] then (if ip = [] then NaN else Fin (of_int (index_value ip)))
      else if hd rest = CHR ''.'' \<and> list_all is_digit (tl rest) \<and> (ip \<noteq> [] \<or> tl rest \<noteq> [])
      then Fin (of_int (index_value ip)
                + of_int (index_value (tl rest)) / 10 ^ length (tl rest))
      else NaN)"

fun num_neg :: "jsnum \<Rightarrow> jsnum" where
  "num_neg (Fin q) = Fin (- q)"
| "num_neg NaN = NaN"

definition string_to_number :: "string \<Rightarrow> jsnum" where
  "string_to_number s =
     (case trim s of
        [] \<Rightarrow> Fin 0
      | c # cs \<Rightarrow>
         if c = CHR ''-'' then num_neg (unsigned_decimal cs)
         else if c = CHR ''+'' then unsigned_decimal cs
         else unsigned_decimal (c # cs))"

text \<open>\<open>Number(v)\<close>.\<close>

fun to_number :: "jsval \<Rightarrow> jsnum" where
  "to_number Undefined = NaN"
| "to_number JNull = Fin 0"
| "to_number (JBool b) = Fin (if b then 1 else 0)"
| "to_number (JNum n) = Fin (of_int n)"
| "to_number (JStr s) = string_to_number s"
| "to_number (JArr xs) = string_to_number (to_string (JArr xs))"
| "to_number (JObj kvs) = NaN"

text \<open>\<open>r.class || 'Unknown'\<close>, converted to the property key it is used as.\<close>

definition row_class :: "row \<Rightarrow> string" where
  "row_class r = to_string (js_or (getp r ''class'') (JStr ''Unknown''))"

text \<open>
  The accumulator \<open>map\<close> is an object literal \<open>{}\<close>, so a read \<open>map[cls]\<close> that finds
  no own property continues in \<open>Object.prototype\<close>. Its members are functions, which are
  truthy, and the accessor \<open>__proto__\<close>, whose setter creates no own property.
\<close>

definition object_prototype_names :: "string list" where
  "object_prototype_names =
     [''constructor'', ''__defineGetter__'', ''__defineSetter__'', ''hasOwnProperty'',
      ''__lookupGetter__'', ''__lookupSetter__'', ''isPrototypeOf'',
      ''propertyIsEnumerable'', ''toString'', ''valueOf'', ''__proto__'',
      ''toLocaleString'']"

text \<open>
  \<open>byClass\<close>. A tally is a count, or the string that \<open>function + 1\<close> produces when
  the label names a member of \<open>Object.prototype\<close>.
\<close>

datatype tally = Count nat | Concatenated

definition byClass_step :: "(string \<times> tally) list \<Rightarrow> row \<Rightarrow> (string \<times> tally) list" where
  "byClass_step m r =
     (let cls = row_class r in
      case map_of m cls of
        Some (Count n) \<Rightarrow> AList.update cls (Count (n + 1)) m
      | Some Concatenated \<Rightarrow> AList.update cls Concatenated m
      | None \<Rightarrow>
         if cls = ''__proto__'' then m
         else if cls \<in> set object_prototype_names then AList.update cls Concatenated m
         else AList.update cls (Count (0 + 1)) m)"

definition byClass :: "row list \<Rightarrow> (string \<times> tally) list" where
  "byClass rs = own_entries (foldl byClass_step [] rs)"

text \<open>
  \<open>scores\<close>. An entry of the accumulator holds \<open>total\<close> and \<open>count\<close>. For a label
  that names a function of \<open>Object.prototype\<close> the entry is that function, whose
  \<open>total\<close> and \<open>count\<close> become \<open>undefined + n\<close>, that is \<open>NaN\<close>.
\<close>

definition scores_step ::
  "(string \<times> jsnum \<times> jsnum) list \<Rightarrow> row \<Rightarrow> (string \<times> jsnum \<times> jsnum) list" where
  "scores_step m r =
     (let cls = row_class r;
          n = to_number (js_or (getp r ''quiz_score'') (JNum 0)) in
      case map_of m cls of
        Some (tot, cnt) \<Rightarrow> AList.update cls (num_add tot n, num_add cnt (Fin 1)) m
      | None \<Rightarrow>
         if cls = ''__proto__'' then m
         else if cls \<in> set object_prototype_names then AList.update cls (NaN, NaN) m
         else AList.update cls (num_add (Fin 0) n, num_add (Fin 0) (Fin 1)) m)"

definition scores_map :: "row list \<Rightarrow> (string \<times> jsnum \<times> jsnum) list" where
  "scores_map rs = foldl scores_step [] rs"

definition scores :: "row list \<Rightarrow> (string \<times> jsnum) list" where
  "scores rs =
     (if rs = [] then []
      else map (\<lambda>(name, tot, cnt). (name, toFixed1 (num_div tot cnt)))
             (own_entries (scores_map rs)))"

text \<open>A count that the accumulator can hold: \<open>NaN\<close>, or a number that is at least one.\<close>

definition counted :: "jsnum \<Rightarrow> bool" where
  "counted c = (case c of NaN \<Rightarrow> True | Fin n \<Rightarrow> 1 \<le> n)"

text \<open>The keys of a list in the order of their first appearance.\<close>

definition first_seen :: "'a list \<Rightarrow> 'a list" where
  "first_seen xs = rev (remdups (rev xs))"

text \<open>The order in which an object lists a sequence of keys created in the given order.\<close>

definition key_order :: "string list \<Rightarrow> string list" where
  "key_order ks =
     sort_key index_value (filter is_array_index ks) @ filter (\<lambda>k. \<not> is_array_index k) ks"

section \<open>The query resolution core\<close>

text \<open>
  The client posts the query and the role to the server, which translates the text into a
  Condition, clamps it to the RoleScope and evaluates it on the data set. The sources hold
  the client only, so this part is written from the specification.
\<close>

text \<open>
  Modelled from the spec: the Record of section 3, one student row of the server's data
  set. The server is not among the sources.
\<close>

record student =
  st_name :: string
  st_grade :: int
  st_class_name :: string
  st_quiz_score :: rat
  st_homework_submitted :: string

text \<open>
  Modelled from the spec: the fields that the Schema Registry declares (section 4.1).
  (The server's code is not among the sources.)
\<close>

datatype field_name = Name | Grade | ClassName | QuizScore | HomeworkSubmitted

text \<open>
  Modelled from the spec: the comparison operators of a Predicate (section 3): equality,
  inequality and the numeric orderings.
  (The server's code is not among the sources.)
\<close>

datatype comparison = OpEq | OpNe | OpLt | OpLe | OpGt | OpGe

text \<open>
  Modelled from the spec: the values that a Predicate of a candidate expression can carry
  (section 3): a number, a string or a boolean.
  (The server's code is not among the sources.)
\<close>

datatype operand = NumV rat | StrV string | BoolV bool

text \<open>
  Modelled from the spec: the filter of a Condition (section 3), a tree of Predicates
  combined with AND and OR.
  (The server's code is not among the sources.)
\<close>

datatype pred_tree =
    Pred field_name comparison operand
  | And pred_tree pred_tree
  | Or pred_tree pred_tree

text \<open>
  Modelled from the spec: the direction of a RankingSpec, max or min (section 3).
  (The server's code is not among the sources.)
\<close>

datatype rank_direction = MaxOf | MinOf

text \<open>
  Modelled from the spec: the RankingSpec (section 3). Its limit is recorded; section 4.4
  returns the records at the extreme value, ties included, whatever the limit.
  (The server's code is not among the sources.)
\<close>

record ranking_spec =
  rank_field :: field_name
  rank_direction :: rank_direction
  rank_limit :: nat

text \<open>
  Modelled from the spec: a Condition is a pure filter or a ranking query. The ranking
  query carries the filter that selects its candidate pool, if any (sections 4.3 and 4.4
  rank within a pool).
  (The server's code is not among the sources.)
\<close>

datatype query_condition =
    FilterQuery pred_tree
  | RankingQuery "pred_tree option" ranking_spec

text \<open>
  Modelled from the spec: the RoleScope (section 3); \<open>None\<close> is the scope \<open>any\<close>.
  (The server's code is not among the sources.)
\<close>

record role_scope =
  scope_grade :: "int option"
  scope_class_name :: "string option"

text \<open>
  Modelled from the spec: the InternalConsistencyFault of section 7.
  (The server's code is not among the sources.)
\<close>

datatype fault = InternalConsistencyFault

text \<open>
  Modelled from the spec: the value of a field of a record, with the field's type.
  (The server's code is not among the sources.)
\<close>

fun field_value :: "student \<Rightarrow> field_name \<Rightarrow> operand" where
  "field_value r Name = StrV (st_name r)"
| "field_value r Grade = NumV (of_int (st_grade r))"
| "field_value r ClassName = StrV (st_class_name r)"
| "field_value r QuizScore = NumV (st_quiz_score r)"
| "field_value r HomeworkSubmitted = StrV (st_homework_submitted r)"

text \<open>
  Modelled from the spec: the numeric comparisons (section 4.4).
  (The server's code is not among the sources.)
\<close>

fun compare_num :: "comparison \<Rightarrow> rat \<Rightarrow> rat \<Rightarrow> bool" where
  "compare_num OpEq a b = (a = b)"
| "compare_num OpNe a b = (a \<noteq> b)"
| "compare_num OpLt a b = (a < b)"
| "compare_num OpLe a b = (a \<le> b)"
| "compare_num OpGt a b = (a > b)"
| "compare_num OpGe a b = (a \<ge> b)"

text \<open>
  Modelled from the spec: one comparison (section 4.4). Numbers are compared as numbers,
  strings and booleans for equality only; operands of different types, and an ordering of
  strings or booleans, are an internal-consistency fault.
  (The server's code is not among the sources.)
\<close>

fun eval_pred :: "comparison \<Rightarrow> operand \<Rightarrow> operand \<Rightarrow> fault + bool" where
  "eval_pred op (NumV a) (NumV b) = Inr (compare_num op a b)"
| "eval_pred OpEq (StrV a) (StrV b) = Inr (a = b)"
| "eval_pred OpNe (StrV a) (StrV b) = Inr (a \<noteq> b)"
| "eval_pred OpEq (BoolV a) (BoolV b) = Inr (a = b)"
| "eval_pred OpNe (BoolV a) (BoolV b) = Inr (a \<noteq> b)"
| "eval_pred _ _ _ = Inl InternalConsistencyFault"

text \<open>
  Modelled from the spec: the evaluation of a predicate tree on one record, with
  short-circuit AND and OR (section 4.4).
  (The server's code is not among the sources.)
\<close>

fun eval_tree :: "pred_tree \<Rightarrow> student \<Rightarrow> fault + bool" where
  "eval_tree (Pred f op v) r = eval_pred op (field_value r f) v"
| "eval_tree (And a b) r =
     (case eval_tree a r of
        Inl e \<Rightarrow> Inl e
      | Inr x \<Rightarrow> if x then eval_tree b r else Inr False)"
| "eval_tree (Or a b) r =
     (case eval_tree a r of
        Inl e \<Rightarrow> Inl e
      | Inr x \<Rightarrow> if x then Inr True else eval_tree b r)"

text \<open>
  Modelled from the spec: filter mode (section 4.4). The matching records in the order of
  the data set; a fault on any record fails the query.
  (The server's code is not among the sources.)
\<close>

fun filter_rows :: "pred_tree \<Rightarrow> student list \<Rightarrow> fault + student list" where
  "filter_rows t [] = Inr []"
| "filter_rows t (r # rs) =
     (case eval_tree t r of
        Inl e \<Rightarrow> Inl e
      | Inr x \<Rightarrow>
         (case filter_rows t rs of
            Inl e \<Rightarrow> Inl e
          | Inr out \<Rightarrow> Inr (if x then r # out else out)))"

text \<open>
  Modelled from the spec: the Access Scope Enforcer (section 4.3). When the scope names a
  grade, an equality predicate on the grade is conjoined (AND) to the filter.
  (The server's code is not among the sources.)
\<close>

definition scope_grade_tree :: "role_scope \<Rightarrow> pred_tree \<Rightarrow> pred_tree" where
  "scope_grade_tree sc t =
     (case scope_grade sc of None \<Rightarrow> t | Some g \<Rightarrow> And (Pred Grade OpEq (NumV (of_int g))) t)"

text \<open>
  Modelled from the spec: the same rule for the class name (section 4.3).
  (The server's code is not among the sources.)
\<close>

definition scope_class_tree :: "role_scope \<Rightarrow> pred_tree \<Rightarrow> pred_tree" where
  "scope_class_tree sc t =
     (case scope_class_name sc of None \<Rightarrow> t | Some c \<Rightarrow> And (Pred ClassName OpEq (StrV c)) t)"

text \<open>
  Modelled from the spec: the candidate pool of a ranking query restricted to the scope
  (section 4.3).
  (The server's code is not among the sources.)
\<close>

definition scope_pool :: "role_scope \<Rightarrow> pred_tree option \<Rightarrow> pred_tree option" where
  "scope_pool sc pool =
     (case pool of
        Some t \<Rightarrow> Some (scope_grade_tree sc (scope_class_tree sc t))
      | None \<Rightarrow>
         (case (scope_grade sc, scope_class_name sc) of
            (None, None) \<Rightarrow> None
          | (Some g, None) \<Rightarrow> Some (Pred Grade OpEq (NumV (of_int g)))
          | (None, Some c) \<Rightarrow> Some (Pred ClassName OpEq (StrV c))
          | (Some g, Some c) \<Rightarrow>
             Some (And (Pred Grade OpEq (NumV (of_int g))) (Pred ClassName OpEq (StrV c)))))"

text \<open>
  Modelled from the spec: the enforcer as a function from a Condition and a RoleScope to a
  new Condition (section 4.3).
  (The server's code is not among the sources.)
\<close>

fun enforce_scope :: "role_scope \<Rightarrow> query_condition \<Rightarrow> query_condition" where
  "enforce_scope sc (FilterQuery t) = FilterQuery (scope_grade_tree sc (scope_class_tree sc t))"
| "enforce_scope sc (RankingQuery pool spec) = RankingQuery (scope_pool sc pool) spec"

text \<open>
  Modelled from the spec: the QueryResult (section 3), without its rendering of the
  condition.
  (The server's code is not among the sources.)
\<close>

record query_result =
  result_rows :: "student list"
  result_count :: nat

text \<open>
  Modelled from the spec: the number that a ranking field holds; only grade and quiz score are numeric.
  (The server's code is not among the sources.)
\<close>

fun numeric_value :: "student \<Rightarrow> field_name \<Rightarrow> rat option" where
  "numeric_value r Grade = Some (of_int (st_grade r))"
| "numeric_value r QuizScore = Some (st_quiz_score r)"
| "numeric_value r _ = None"

text \<open>
  Modelled from the spec: the extreme value of a non-empty pool (section 4.4).
  (The server's code is not among the sources.)
\<close>

fun extreme :: "rank_direction \<Rightarrow> rat \<Rightarrow> rat list \<Rightarrow> rat" where
  "extreme MaxOf v vs = fold max vs v"
| "extreme MinOf v vs = fold min vs v"

text \<open>
  Modelled from the spec: ranking mode (section 4.4). Every record of the candidate pool whose
  ranking field has the extreme value, ties included; an empty pool gives an empty result;
  ranking a field that is not numeric is a fault.
  (The server's code is not among the sources.)
\<close>

definition rank_rows :: "ranking_spec \<Rightarrow> student list \<Rightarrow> fault + student list" where
  "rank_rows spec pool =
     (case pool of
        [] \<Rightarrow> Inr []
      | r # rs \<Rightarrow>
         (case numeric_value r (rank_field spec) of
            None \<Rightarrow> Inl InternalConsistencyFault
          | Some v \<Rightarrow>
             (let best = extreme (rank_direction spec) v
                           (map (\<lambda>x. the (numeric_value x (rank_field spec))) rs)
              in Inr (filter (\<lambda>x. numeric_value x (rank_field spec) = Some best) pool))))"

text \<open>
  Modelled from the spec: the Query Evaluator (section 4.4): the rows and their count.
  (The server's code is not among the sources.)
\<close>

definition evaluate :: "query_condition \<Rightarrow> student list \<Rightarrow> fault + query_result" where
  "evaluate c ds =
     (case (case c of
              FilterQuery t \<Rightarrow> filter_rows t ds
            | RankingQuery pool spec \<Rightarrow>
               (case (case pool of None \<Rightarrow> Inr ds | Some t \<Rightarrow> filter_rows t ds) of
                  Inl e \<Rightarrow> Inl e
                | Inr candidates \<Rightarrow> rank_rows spec candidates)) of
        Inl e \<Rightarrow> Inl e
      | Inr rs \<Rightarrow> Inr \<lparr>result_rows = rs, result_count = length rs\<rparr>)"

text \<open>
  Modelled from the spec: the pipeline after translation (section 2). The candidate
  Condition of the translator is clamped to the scope and then evaluated.
  (The server's code is not among the sources.)
\<close>

definition resolve :: "role_scope \<Rightarrow> query_condition \<Rightarrow> student list \<Rightarrow> fault + query_result" where
  "resolve sc c ds = evaluate (enforce_scope sc c) ds"

section \<open>Example data\<close>

text \<open>A host, three rows and a chat state, used to evaluate the theorems below.\<close>

definition example_host :: host where
  "example_host = \<lparr>toLowerCase = (\<lambda>s. s), localeCompare = (\<lambda>a b. 0)\<rparr>"

definition asha :: row where
  "asha = [(''name'', JStr ''Asha''), (''grade'', JNum 7), (''class'', JStr ''A''),
           (''quiz_score'', JNum 80)]"

definition ben :: row where
  "ben = [(''name'', JStr ''Ben''), (''grade'', JNum 9), (''class'', JStr ''A''),
          (''quiz_score'', JNum 90)]"

definition chen :: row where
  "chen = [(''name'', JStr ''Chen''), (''grade'', JNum 8), (''class'', JStr ''B''),
           (''quiz_score'', JNum 70), (''note'', JBool True)]"

definition example_rows :: "row list" where
  "example_rows = [asha, ben, chen]"

definition example_state :: chat_state where
  "example_state =
     \<lparr>input = ''who is the topper'', loading = False, error = JStr [], messages = [],
      results = JArr [JObj asha], condition = JStr ''grade == 7''\<rparr>"

text \<open>An answer without an error, and the example state with another query text.\<close>

definition ok_answer :: jsval where
  "ok_answer =
     JObj [(''condition'', JStr ''grade == 8''), (''results'', JArr [JObj ben]),
           (''count'', JNum 1)]"

definition second_state :: chat_state where
  "second_state = example_state\<lparr>input := ''show grade 9 instead''\<rparr>"

text \<open>Rejections: a timeout without a response, and an HTTP error with a body.\<close>

definition timed_out :: axios_error where
  "timed_out = \<lparr>message = ''timeout of 30000ms exceeded'', response_data = None\<rparr>"

definition http_error :: "jsval \<Rightarrow> axios_error" where
  "http_error b = \<lparr>message = ''Request failed with status code 400'', response_data = Some b\<rparr>"

definition detail_body :: jsval where
  "detail_body = JObj [(''detail'', JStr ''Translation service unavailable'')]"

definition validation_body :: jsval where
  "validation_body =
     JObj [(''statusCode'', JNum 400), (''message'', JArr [JStr ''grade must be a number'']),
           (''error'', JStr ''Bad Request'')]"

definition nested_body :: jsval where
  "nested_body =
     JObj [(''detail'', JStr ''Translation service unavailable''),
           (''response'', JObj [(''data'', JObj [(''detail'', JStr ''upstream says no'')])])]"

text \<open>Two rows whose class labels are numerals.\<close>

definition numbered_rows :: "row list" where
  "numbered_rows =
     [[(''name'', JStr ''Dev''), (''class'', JStr ''10''), (''quiz_score'', JNum 80)],
      [(''name'', JStr ''Eli''), (''class'', JStr ''9''), (''quiz_score'', JNum 70)]]"

text \<open>A data set of five students and the scope of grade 8, class A.\<close>

definition pupil :: "string \<Rightarrow> int \<Rightarrow> string \<Rightarrow> rat \<Rightarrow> student" where
  "pupil n g c q =
     \<lparr>st_name = n, st_grade = g, st_class_name = c, st_quiz_score = q,
      st_homework_submitted = ''Yes''\<rparr>"

definition school :: "student list" where
  "school =
     [pupil ''Asha'' 7 ''A'' 95, pupil ''Ben'' 8 ''A'' 90, pupil ''Chen'' 8 ''B'' 99,
      pupil ''Dev'' 9 ''A'' 99, pupil ''Eli'' 8 ''A'' 90]"

definition grade8_classA :: role_scope where
  "grade8_classA = \<lparr>scope_grade = Some 8, scope_class_name = Some ''A''\<rparr>"

section \<open>Properties of the results panel\<close>

declare decimal.simps [simp del]

lemmas example_defs = example_rows_def asha_def ben_def chen_def example_host_def

lemma set_own_entries: "set (own_entries obj) = set obj"
  by (auto simp: own_entries_def)

lemma set_own_keys: "set (own_keys obj) = fst ` set obj"
  by (simp add: own_keys_def set_own_entries)

lemma length_insert_by: "length (insert_by c x ys) = Suc (length ys)"
  by (induction ys) simp_all

lemma length_array_sort: "length (array_sort c xs) = length xs"
  by (induction xs) (simp_all add: array_sort_def length_insert_by)

lemma length_sortedResults:
  "length (sortedResults h cfg (Some rs)) = length rs"
  by (simp add: sortedResults_def length_array_sort split: option.splits)

lemma ResultsPanel_Some:
  "ResultsPanel h cfg hiddenColumns (Some (r # rs)) = ResultsTable t \<Longrightarrow>
     t = \<lparr>found_count = length (sortedResults h cfg (Some (r # rs))),
          found_plural = (length (sortedResults h cfg (Some (r # rs))) \<noteq> 1),
          toggles = map (\<lambda>col. (col, col \<in> hiddenColumns)) (own_keys r),
          columns = filter (\<lambda>h. h \<notin> hiddenColumns) (own_keys r),
          body = map (\<lambda>(i, row). (i + 1, map (cell_of row) (filter (\<lambda>h. h \<notin> hiddenColumns) (own_keys r))))
                   (enumerate 0 (sortedResults h cfg (Some (r # rs)))),
          showing_count = length (sortedResults h cfg (Some (r # rs))),
          showing_of = length (sortedResults h cfg (Some (r # rs))),
          visible_columns = length (filter (\<lambda>h. h \<notin> hiddenColumns) (own_keys r)),
          all_columns = length (own_keys r)\<rparr>"
  by (simp add: ResultsPanel_def headers_def visibleHeaders_def Let_def)

lemma ResultsPanel_table_nonempty:
  "ResultsPanel h cfg hiddenColumns rows = ResultsTable t \<Longrightarrow> \<exists>r rs. rows = Some (r # rs)"
  by (auto simp: ResultsPanel_def split: option.splits list.splits)

lemma body_numbers:
  "map fst (map (\<lambda>(i, row). (i + 1, f row)) (enumerate 0 xs)) = map Suc [0 ..< length xs]"
proof -
  have "map fst (map (\<lambda>(i, row). (i + 1, f row)) (enumerate 0 xs))
        = map (\<lambda>x. Suc (fst x)) (enumerate 0 xs)"
    by (simp add: case_prod_unfold comp_def)
  also have "\<dots> = map Suc (map fst (enumerate 0 xs))"
    by (simp only: map_map comp_def)
  also have "\<dots> = map Suc [0 ..< length xs]"
    by (simp only: map_fst_enumerate) simp
  finally show ?thesis .
qed

text \<open>
  Claim C5. Whenever the panel shows a table, the record count of the header and the two
  counts of the footer equal the number of rows in the table body; the rows are numbered
  \<open>1, 2, \<dots>\<close> and are as many as the rows received, under every sort configuration.
\<close>

theorem results_count_matches_rows:
  assumes "ResultsPanel h cfg hiddenColumns rows = ResultsTable t"
  shows "found_count t = length (body t) \<and> showing_count t = length (body t)
         \<and> showing_of t = length (body t)
         \<and> map fst (body t) = map Suc [0 ..< length (body t)]
         \<and> (\<exists>rs. rows = Some rs \<and> length (body t) = length rs)"
proof -
  from assms obtain r rs where res: "rows = Some (r # rs)"
    using ResultsPanel_table_nonempty by blast
  let ?sorted = "sortedResults h cfg (Some (r # rs))"
  let ?vs = "filter (\<lambda>h. h \<notin> hiddenColumns) (own_keys r)"
  note t = ResultsPanel_Some [OF assms [unfolded res]]
  have b: "body t = map (\<lambda>(i, row). (i + 1, map (cell_of row) ?vs)) (enumerate 0 ?sorted)"
    by (subst t) simp
  have len: "length (body t) = length ?sorted"
    by (simp add: b)
  have counts: "found_count t = length ?sorted" "showing_count t = length ?sorted"
    "showing_of t = length ?sorted"
    by (subst t, simp)+
  have "map fst (body t) = map Suc [0 ..< length ?sorted]"
    unfolding b by (rule body_numbers)
  moreover have "length ?sorted = length (r # rs)"
    by (rule length_sortedResults)
  ultimately show ?thesis
    using len counts res by simp
qed

text \<open>Claim C5 on the example rows, sorted by grade in descending order.\<close>

theorem results_count_matches_rows_witness:
  "\<exists>t. ResultsPanel example_host \<lparr>key = Some ''grade'', direction = Desc\<rparr> {''class''}
          (Some example_rows) = ResultsTable t
       \<and> found_count t = length (body t) \<and> showing_count t = length (body t)
       \<and> showing_of t = length (body t) \<and> length (body t) = 3"
proof -
  obtain t where e: "ResultsPanel example_host \<lparr>key = Some ''grade'', direction = Desc\<rparr>
      {''class''} (Some example_rows) = ResultsTable t"
    by (simp add: ResultsPanel_def example_rows_def Let_def)
  from results_count_matches_rows [OF e] e show ?thesis
    by (auto simp: example_rows_def)
qed

text \<open>
  Claim C6. While no sort column is selected (\<open>key = null\<close>) the rows shown are the rows
  received, in the order received: \<open>sortedResults\<close> is the input list, the table body
  lists its rows in that order, and the result does not depend on the host or on the
  direction, so rendering the same list again gives the same rows in the same order.
\<close>

theorem unsorted_panel_keeps_order:
  "sortedResults h \<lparr>key = None, direction = d\<rparr> (Some rs) = rs
   \<and> (ResultsPanel h \<lparr>key = None, direction = d\<rparr> hiddenColumns (Some rs) = ResultsTable t \<longrightarrow>
        body t = map (\<lambda>(i, r). (i + 1, map (cell_of r) (visibleHeaders hiddenColumns (Some rs))))
                   (enumerate 0 rs))
   \<and> sortedResults h \<lparr>key = None, direction = d\<rparr> rows
       = sortedResults h' \<lparr>key = None, direction = d'\<rparr> rows"
proof -
  have s: "\<And>g e x. sortedResults g \<lparr>key = None, direction = e\<rparr> x
                  = (case x of None \<Rightarrow> [] | Some ys \<Rightarrow> ys)"
    by (simp add: sortedResults_def split: option.splits)
  have "body t = map (\<lambda>(i, r). (i + 1, map (cell_of r) (visibleHeaders hiddenColumns (Some rs))))
                   (enumerate 0 rs)"
    if "ResultsPanel h \<lparr>key = None, direction = d\<rparr> hiddenColumns (Some rs) = ResultsTable t"
    using that by (cases rs) (auto simp: ResultsPanel_def s Let_def)
  then show ?thesis
    by (simp add: s)
qed

text \<open>Claim C6 on the example rows.\<close>

theorem unsorted_panel_keeps_order_witness:
  "sortedResults example_host \<lparr>key = None, direction = Asc\<rparr> (Some example_rows) = example_rows
   \<and> (\<exists>t. ResultsPanel example_host \<lparr>key = None, direction = Asc\<rparr> {''class''} (Some example_rows)
            = ResultsTable t
          \<and> map snd (body t) =
              [[Plain (JStr ''Asha''), Plain (JNum 7), Plain (JNum 80)],
               [Plain (JStr ''Ben''), Plain (JNum 9), Plain (JNum 90)],
               [Plain (JStr ''Chen''), Plain (JNum 8), Plain (JNum 70)]])"
proof -
  obtain t where e: "ResultsPanel example_host \<lparr>key = None, direction = Asc\<rparr> {''class''}
      (Some example_rows) = ResultsTable t"
    by (simp add: ResultsPanel_def example_rows_def Let_def)
  from unsorted_panel_keeps_order [of example_host Asc example_rows "{''class''}" t]
  have 1: "sortedResults example_host \<lparr>key = None, direction = Asc\<rparr> (Some example_rows) = example_rows"
   and 2: "body t = map (\<lambda>(i, r). (i + 1, map (cell_of r) (visibleHeaders {''class''} (Some example_rows))))
                   (enumerate 0 example_rows)"
    using e by simp_all
  have m: "map snd (body t) =
              [[Plain (JStr ''Asha''), Plain (JNum 7), Plain (JNum 80)],
               [Plain (JStr ''Ben''), Plain (JNum 9), Plain (JNum 90)],
               [Plain (JStr ''Chen''), Plain (JNum 8), Plain (JNum 70)]]"
    unfolding 2
    by (simp add: example_defs visibleHeaders_def headers_def own_keys_def own_entries_def
        is_array_index_def is_digit_def cell_of_def getp_def)
  show ?thesis
    by (rule conjI [OF 1], rule exI [of _ t], rule conjI [OF e m])
qed

text \<open>
  Claim C9. For a non-empty list of rows the columns that can be shown (the toggles) are the
  keys of the first row, the columns shown are those that are not hidden, and a key that
  the first row lacks is never a column. For an empty list, or none, the panel shows no
  table and there are no headers.
\<close>

theorem columns_are_first_row_keys:
  "headers (Some (r # rs)) = own_keys r
   \<and> set (headers (Some (r # rs))) = fst ` set r
   \<and> (\<exists>t. ResultsPanel h cfg hiddenColumns (Some (r # rs)) = ResultsTable t
          \<and> map fst (toggles t) = own_keys r
          \<and> columns t = filter (\<lambda>k. k \<notin> hiddenColumns) (own_keys r)
          \<and> set (columns t) = fst ` set r - hiddenColumns
          \<and> (\<forall>k. k \<notin> fst ` set r \<longrightarrow> k \<notin> set (columns t) \<and> k \<notin> fst ` set (toggles t)))
   \<and> ResultsPanel h cfg hiddenColumns (Some []) = NoResults
   \<and> ResultsPanel h cfg hiddenColumns None = NoResults
   \<and> headers (Some []) = [] \<and> headers None = []
   \<and> visibleHeaders hiddenColumns (Some []) = [] \<and> visibleHeaders hiddenColumns None = []"
proof -
  have hd: "headers (Some (r # rs)) = own_keys r"
    by (simp add: headers_def)
  have "\<exists>t. ResultsPanel h cfg hiddenColumns (Some (r # rs)) = ResultsTable t
          \<and> map fst (toggles t) = own_keys r
          \<and> columns t = filter (\<lambda>k. k \<notin> hiddenColumns) (own_keys r)"
    by (simp add: ResultsPanel_def Let_def hd visibleHeaders_def comp_def)
  then obtain t where t: "ResultsPanel h cfg hiddenColumns (Some (r # rs)) = ResultsTable t"
      "map fst (toggles t) = own_keys r"
      "columns t = filter (\<lambda>k. k \<notin> hiddenColumns) (own_keys r)"
    by blast
  have c: "set (columns t) = fst ` set r - hiddenColumns"
    unfolding t(3) by (auto simp: set_own_keys)
  have g: "fst ` set (toggles t) = fst ` set r"
    using t(2) set_own_keys [of r] by (metis set_map)
  from t c g have "ResultsPanel h cfg hiddenColumns (Some (r # rs)) = ResultsTable t
          \<and> map fst (toggles t) = own_keys r
          \<and> columns t = filter (\<lambda>k. k \<notin> hiddenColumns) (own_keys r)
          \<and> set (columns t) = fst ` set r - hiddenColumns
          \<and> (\<forall>k. k \<notin> fst ` set r \<longrightarrow> k \<notin> set (columns t) \<and> k \<notin> fst ` set (toggles t))"
    by simp
  then show ?thesis
    by (auto simp: hd set_own_keys ResultsPanel_def headers_def visibleHeaders_def simp del: set_map)
qed

text \<open>
  Claim C9 on the example rows: \<open>note\<close> is a key of the third row only and is no column.
\<close>

theorem columns_are_first_row_keys_witness:
  "\<exists>t. ResultsPanel example_host \<lparr>key = None, direction = Asc\<rparr> {''class''} (Some example_rows)
          = ResultsTable t
       \<and> columns t = [''name'', ''grade'', ''quiz_score'']
       \<and> ''note'' \<in> fst ` set chen \<and> ''note'' \<notin> set (columns t)"
proof -
  note th = columns_are_first_row_keys
    [of asha "[ben, chen]" example_host "\<lparr>key = None, direction = Asc\<rparr>" "{''class''}"]
  from th [THEN conjunct2, THEN conjunct2, THEN conjunct1]
  obtain t where t:
    "ResultsPanel example_host \<lparr>key = None, direction = Asc\<rparr> {''class''} (Some (asha # [ben, chen]))
       = ResultsTable t
     \<and> map fst (toggles t) = own_keys asha
     \<and> columns t = filter (\<lambda>k. k \<notin> {''class''}) (own_keys asha)
     \<and> set (columns t) = fst ` set asha - {''class''}
     \<and> (\<forall>k. k \<notin> fst ` set asha \<longrightarrow> k \<notin> set (columns t) \<and> k \<notin> fst ` set (toggles t))" ..
  note e = t [THEN conjunct1]
  note f = t [THEN conjunct2, THEN conjunct2, THEN conjunct1]
  note g = t [THEN conjunct2, THEN conjunct2, THEN conjunct2, THEN conjunct2]
  have c: "columns t = [''name'', ''grade'', ''quiz_score'']"
    unfolding f
    by (simp add: asha_def own_keys_def own_entries_def is_array_index_def is_digit_def)
  have n: "''note'' \<in> fst ` set chen"
    by (simp add: chen_def)
  have "''note'' \<notin> fst ` set asha"
    by (simp add: asha_def)
  with g have m: "''note'' \<notin> set (columns t)"
    by simp
  show ?thesis
    unfolding example_rows_def
    by (rule exI [of _ t], intro conjI e c n m)
qed

section \<open>Properties of the API client\<close>

lemma truthy_handleError: "truthy (handleError now e)"
  by (simp add: handleError_def Let_def split: option.splits)

lemma truthy_not_nullish: "truthy v \<Longrightarrow> \<not> nullish v"
  by (auto simp: nullish_def)

lemma get_truthy: "truthy v \<Longrightarrow> get v k = Inr (get_opt v k)"
  by (simp add: get_def truthy_not_nullish)

lemma truthy_js_or: "truthy b \<Longrightarrow> truthy (js_or a b)"
  by (simp add: js_or_def)

lemma postQuery_catch_truthy:
  assumes "truthy thrown"
  shows "postQuery_catch now thrown =
     Inr (failure_answer now
            (js_or (js_or (get_opt (js_or (get_opt (get_opt thrown ''response'') ''data'') (JObj []))
                             ''detail'')
                          (get_opt thrown ''message''))
                   (JStr ''Failed to process query'')))"
proof -
  have e: "\<And>a k. get (js_or a (JObj [])) k = Inr (get_opt (js_or a (JObj [])) k)"
    by (rule get_truthy, rule truthy_js_or) simp
  show ?thesis
    by (simp add: postQuery_catch_def Let_def get_truthy [OF assms] e failure_answer_def)
      (simp add: js_or_def)
qed

lemma get_opt_js_or_empty: "get_opt (js_or a (JObj [])) k = get_opt a k"
  by (cases a) (simp_all add: js_or_def get_opt_def getp_def)

lemma postQuery_Rejected:
  "postQuery now (Rejected e) = Inr (failure_answer now (failure_error now e))"
  by (simp add: postQuery_def postQuery_catch_truthy [OF truthy_handleError]
      get_opt_js_or_empty failure_error_def Let_def)

lemma postQuery_total: "\<exists>v. postQuery now out = Inr v"
  by (cases out) (simp_all add: postQuery_def postQuery_Rejected [unfolded postQuery_def, simplified])

lemma truthy_failure_error: "truthy (failure_error now e)"
  by (simp add: failure_error_def Let_def js_or_def)

lemma truthy_string: "truthy v \<Longrightarrow> is_string v \<Longrightarrow> is_nonempty_string v"
  by (cases v) (simp_all add: is_string_def is_nonempty_string_def)

lemma js_or_cases: "(truthy a \<and> js_or a b = a) \<or> (\<not> truthy a \<and> js_or a b = b)"
  by (simp add: js_or_def)

lemma handleError_no_response:
  "response_data e = None \<or> (\<exists>d. response_data e = Some d \<and> \<not> truthy d) \<Longrightarrow>
     get_opt (handleError now e) ''response'' = Undefined
     \<and> get_opt (handleError now e) ''message'' = Undefined"
  by (auto simp: handleError_def Let_def get_opt_def getp_def)

lemma handleError_body:
  "response_data e = Some d \<Longrightarrow> truthy d \<Longrightarrow> handleError now e = d"
  by (simp add: handleError_def Let_def)

text \<open>
  Claim C3, as the code has it. \<open>postQuery\<close> never rejects: it resolves for every
  outcome of the request. When the request is rejected it resolves with the object
  \<open>{error, condition: '', results: [], count: 0, timestamp}\<close>, whose \<open>error\<close> is
  truthy. The error is the literal \<open>Failed to process query\<close> when there was no
  response (network failure, timeout) or a falsy body; it is a non-empty string whenever the body's
  \<open>message\<close> and \<open>response.data.detail\<close> are each falsy or a string. (A truthy value
  of another type in one of these places is passed on as it is.)
\<close>

theorem postQuery_resolves:
  "(\<exists>v. postQuery now out = Inr v)
   \<and> postQuery now (Rejected e) = Inr (failure_answer now (failure_error now e))
   \<and> truthy (failure_error now e)
   \<and> (response_data e = None \<or> (\<exists>d. response_data e = Some d \<and> \<not> truthy d)
        \<longrightarrow> failure_error now e = JStr ''Failed to process query'')
   \<and> (\<forall>b. response_data e = Some b \<longrightarrow>
          (let detail = get_opt (get_opt (get_opt b ''response'') ''data'') ''detail'';
               msg = get_opt b ''message''
           in (truthy detail \<longrightarrow> is_string detail) \<and> (truthy msg \<longrightarrow> is_string msg)
              \<longrightarrow> is_nonempty_string (failure_error now e)))
   \<and> get_opt (failure_answer now x) ''error'' = x
   \<and> get_opt (failure_answer now x) ''condition'' = JStr []
   \<and> get_opt (failure_answer now x) ''results'' = JArr []
   \<and> get_opt (failure_answer now x) ''count'' = JNum 0"
proof -
  have 5: "failure_error now e = JStr ''Failed to process query''"
    if "response_data e = None \<or> (\<exists>d. response_data e = Some d \<and> \<not> truthy d)"
    using handleError_no_response [OF that, of now]
    by (simp add: failure_error_def Let_def js_or_def get_opt_def)
  have 4: "is_nonempty_string (failure_error now e)"
    if b: "response_data e = Some b"
      and d: "truthy (get_opt (get_opt (get_opt b ''response'') ''data'') ''detail'')
              \<longrightarrow> is_string (get_opt (get_opt (get_opt b ''response'') ''data'') ''detail'')"
      and m: "truthy (get_opt b ''message'') \<longrightarrow> is_string (get_opt b ''message'')"
    for b
  proof (cases "truthy b")
    case False
    with b have "failure_error now e = JStr ''Failed to process query''"
      by (intro 5) simp
    then show ?thesis by (simp add: is_nonempty_string_def)
  next
    case True
    then have h: "handleError now e = b"
      using b by (simp add: handleError_body)
    let ?d = "get_opt (get_opt (get_opt b ''response'') ''data'') ''detail''"
    let ?m = "get_opt b ''message''"
    have lit: "is_nonempty_string (JStr ''Failed to process query'')"
      by (simp add: is_nonempty_string_def)
    have f: "failure_error now e = js_or (js_or ?d ?m) (JStr ''Failed to process query'')"
      by (simp add: failure_error_def Let_def h)
    show ?thesis
    proof (cases "truthy ?d")
      case True
      with d have "is_nonempty_string ?d" by (simp add: truthy_string)
      with True show ?thesis by (simp add: f js_or_def)
    next
      case nd: False
      show ?thesis
      proof (cases "truthy ?m")
        case True
        with m have "is_nonempty_string ?m" by (simp add: truthy_string)
        with True nd show ?thesis by (simp add: f js_or_def)
      next
        case False
        with nd lit show ?thesis by (simp add: f js_or_def)
      qed
    qed
  qed
  have 6: "get_opt (failure_answer now x) ''error'' = x
   \<and> get_opt (failure_answer now x) ''condition'' = JStr []
   \<and> get_opt (failure_answer now x) ''results'' = JArr []
   \<and> get_opt (failure_answer now x) ''count'' = JNum 0"
    by (simp add: failure_answer_def get_opt_def getp_def)
  show ?thesis
    apply (intro conjI)
            apply (rule postQuery_total)
           apply (rule postQuery_Rejected)
          apply (rule truthy_failure_error)
         apply (simp add: 5)
        apply (simp only: Let_def)
        apply (intro allI impI)
        apply (erule conjE)
        apply (rule 4, assumption, assumption, assumption)
       apply (simp_all only: 6)
    done
qed

text \<open>
  Claim C3 evaluated: a timeout gives the literal, and a body with a string \<open>message\<close>
  gives that message.
\<close>

theorem postQuery_resolves_witness:
  "postQuery ''T'' (Rejected timed_out) = Inr (failure_answer ''T'' (JStr ''Failed to process query''))
   \<and> postQuery ''T'' (Rejected (http_error (JObj [(''message'', JStr ''Rate limit exceeded'')])))
       = Inr (failure_answer ''T'' (JStr ''Rate limit exceeded''))
   \<and> is_nonempty_string (JStr ''Rate limit exceeded'')"
proof -
  let ?b = "JObj [(''message'', JStr ''Rate limit exceeded'')]"
  note a = postQuery_resolves [of "''T''" "Rejected timed_out" timed_out]
  note b = postQuery_resolves [of "''T''" "Rejected (http_error ?b)" "http_error ?b"]
  have 1: "failure_error ''T'' timed_out = JStr ''Failed to process query''"
    using a by (simp add: timed_out_def)
  have 2: "failure_error ''T'' (http_error ?b) = JStr ''Rate limit exceeded''"
    by (simp add: failure_error_def http_error_def handleError_def get_opt_def getp_def js_or_def)
  have 3: "is_nonempty_string (failure_error ''T'' (http_error ?b))"
    using b by (simp add: http_error_def get_opt_def getp_def is_string_def)
  from a b 1 2 3 show ?thesis by simp
qed

text \<open>
  Claim C3 as stated fails: for an HTTP error whose body carries a list of messages, the
  \<open>error\<close> of the answer is that list, not a string.
\<close>

theorem postQuery_error_string_counterexample:
  "postQuery ''T'' (Rejected (http_error validation_body))
     = Inr (failure_answer ''T'' (JArr [JStr ''grade must be a number'']))
   \<and> get_opt (failure_answer ''T'' (JArr [JStr ''grade must be a number''])) ''error''
       = JArr [JStr ''grade must be a number'']
   \<and> \<not> is_nonempty_string (JArr [JStr ''grade must be a number''])"
  by (simp add: postQuery_Rejected failure_error_def http_error_def handleError_def
      validation_body_def get_opt_def getp_def js_or_def is_nonempty_string_def failure_answer_def)

text \<open>
  Claim C10, as the code has it. When the body of an HTTP error is an object with a
  \<open>detail\<close> field and no \<open>message\<close> field, and its \<open>response\<close> field (if it has
  one) holds no truthy \<open>data.detail\<close>, then \<open>postQuery\<close> resolves with the error
  \<open>Failed to process query\<close>, whatever the detail is: the interceptor throws the body
  itself, and the \<open>catch\<close> clause looks for \<open>response.data\<close> inside it.
\<close>

theorem detail_not_propagated:
  assumes "response_data e = Some (JObj kvs)"
    and "map_of kvs ''detail'' = Some d"
    and "map_of kvs ''message'' = None"
    and "\<not> truthy (get_opt (get_opt (getp kvs ''response'') ''data'') ''detail'')"
  shows "postQuery now (Rejected e) = Inr (failure_answer now (JStr ''Failed to process query''))"
proof -
  have h: "handleError now e = JObj kvs"
    using assms(1) by (simp add: handleError_body)
  have "failure_error now e = JStr ''Failed to process query''"
    using assms(3,4) by (simp add: failure_error_def h Let_def get_opt_def getp_def js_or_def)
  then show ?thesis
    by (simp add: postQuery_Rejected)
qed

text \<open>Claim C10 for the body \<open>{detail: 'Translation service unavailable'}\<close>.\<close>

theorem detail_not_propagated_witness:
  "postQuery ''T'' (Rejected (http_error detail_body))
     = Inr (failure_answer ''T'' (JStr ''Failed to process query''))"
  using detail_not_propagated
    [of "http_error detail_body" "[(''detail'', JStr ''Translation service unavailable'')]"
        "JStr ''Translation service unavailable''" "''T''"]
  by (simp add: http_error_def detail_body_def get_opt_def getp_def)

text \<open>
  Claim C10 as stated fails: a body with a \<open>detail\<close> field and no \<open>message\<close> field
  that also has a \<open>response.data.detail\<close> makes \<open>postQuery\<close> answer with that inner
  detail.
\<close>

theorem detail_not_propagated_counterexample:
  "get_opt nested_body ''detail'' = JStr ''Translation service unavailable''
   \<and> get_opt nested_body ''message'' = Undefined
   \<and> postQuery ''T'' (Rejected (http_error nested_body))
       = Inr (failure_answer ''T'' (JStr ''upstream says no''))
   \<and> get_opt (failure_answer ''T'' (JStr ''upstream says no'')) ''error''
       \<noteq> JStr ''Failed to process query''"
  by (simp add: postQuery_Rejected failure_error_def http_error_def handleError_def
      nested_body_def get_opt_def getp_def js_or_def failure_answer_def)

section \<open>Properties of the chat panel\<close>

text \<open>
  Claim C8. \<open>handleSend\<close> posts at most one request, whose \<open>role\<close> is the object
  \<open>{grade, class_name}\<close> read from the selected role. The role of the request does not
  depend on the query text: two submissions under the same role carry the same role,
  whatever their texts, sessions and clocks.
\<close>

theorem request_role_from_selection:
  "posted (handleSend post t0 t1 r sid st)
     = (if trim (input st) = [] then [] else [query_request (input st) r sid])
   \<and> get_opt (query_request q r sid) ''role''
       = JObj [(''grade'', grade r), (''class_name'', class' r)]
   \<and> (req \<in> set (posted (handleSend post t0 t1 r sid st))
        \<and> req' \<in> set (posted (handleSend post' t0' t1' r sid' st'))
      \<longrightarrow> get_opt req ''role'' = get_opt req' ''role'')"
proof -
  have p: "\<And>post t0 t1 sid st. posted (handleSend post t0 t1 r sid st)
     = (if trim (input st) = [] then [] else [query_request (input st) r sid])"
    by (simp add: handleSend_def Let_def split: prod.splits)
  have g: "\<And>q sid. get_opt (query_request q r sid) ''role''
       = JObj [(''grade'', grade r), (''class_name'', class' r)]"
    by (simp add: query_request_def get_opt_def getp_def)
  show ?thesis
    by (auto simp: p g split: if_splits)
qed

text \<open>
  Claim C8 for two submissions under the role grade 8, class A, with different query texts,
  sessions and clocks.
\<close>

theorem request_role_from_selection_witness:
  "posted (handleSend (\<lambda>req. Inr ok_answer) 1 2 \<lparr>grade = JNum 8, class' = JStr ''A''\<rparr> ''s1''
             example_state)
     = [query_request ''who is the topper'' \<lparr>grade = JNum 8, class' = JStr ''A''\<rparr> ''s1'']
   \<and> posted (handleSend (\<lambda>req. Inr JNull) 3 4 \<lparr>grade = JNum 8, class' = JStr ''A''\<rparr> ''s2''
             second_state)
     = [query_request ''show grade 9 instead'' \<lparr>grade = JNum 8, class' = JStr ''A''\<rparr> ''s2'']
   \<and> get_opt (query_request ''who is the topper'' \<lparr>grade = JNum 8, class' = JStr ''A''\<rparr> ''s1'')
         ''role''
       = JObj [(''grade'', JNum 8), (''class_name'', JStr ''A'')]
   \<and> get_opt (query_request ''who is the topper'' \<lparr>grade = JNum 8, class' = JStr ''A''\<rparr> ''s1'')
         ''role''
       = get_opt (query_request ''show grade 9 instead'' \<lparr>grade = JNum 8, class' = JStr ''A''\<rparr>
                    ''s2'') ''role''"
proof -
  let ?role = "\<lparr>grade = JNum 8, class' = JStr ''A''\<rparr>"
  let ?q1 = "query_request ''who is the topper'' ?role ''s1''"
  let ?q2 = "query_request ''show grade 9 instead'' ?role ''s2''"
  note th = request_role_from_selection
    [of "\<lambda>req. Inr ok_answer" 1 2 ?role "''s1''" example_state "''who is the topper''"
        ?q1 ?q2 "\<lambda>req. Inr JNull" 3 4 "''s2''" second_state]
  have t: "trim (input example_state) \<noteq> []" "trim (input second_state) \<noteq> []"
    "input example_state = ''who is the topper''" "input second_state = ''show grade 9 instead''"
    by (simp_all add: example_state_def second_state_def trim_def is_space_def)
  from th [THEN conjunct1] t
  have 1: "posted (handleSend (\<lambda>req. Inr ok_answer) 1 2 ?role ''s1'' example_state) = [?q1]"
    by simp
  from request_role_from_selection
    [of "\<lambda>req. Inr JNull" 3 4 ?role "''s2''" second_state, THEN conjunct1] t
  have 2: "posted (handleSend (\<lambda>req. Inr JNull) 3 4 ?role ''s2'' second_state) = [?q2]"
    by simp
  from th [THEN conjunct2, THEN conjunct1]
  have 3: "get_opt ?q1 ''role'' = JObj [(''grade'', JNum 8), (''class_name'', JStr ''A'')]"
    by simp
  from th [THEN conjunct2, THEN conjunct2] 1 2
  have 4: "get_opt ?q1 ''role'' = get_opt ?q2 ''role''"
    by simp
  from 1 2 3 4 show ?thesis
    by (intro conjI)
qed

lemma handleSend_catch_frame:
  "handleSend_catch t err st = (st', esc) \<Longrightarrow>
     results st' = results st \<and> condition st' = condition st"
  by (auto simp: handleSend_catch_def split: sum.splits js_error.splits)

lemma truthy_get_opt_not_nullish: "truthy (get_opt v k) \<Longrightarrow> \<not> nullish v"
  by (auto simp: nullish_def get_opt_def)

lemma handleSend_try_error:
  "truthy (get_opt res ''error'') \<Longrightarrow>
     handleSend_try t res st =
       Inr (st\<lparr>error := get_opt res ''error'',
               messages := messages st @
                 [\<lparr>sender = Bot, text' = error_text (get_opt res ''error''), timestamp = t,
                   isError = True, count = Undefined\<rparr>]\<rparr>)"
  by (simp add: handleSend_try_def get_def truthy_get_opt_not_nullish)

lemma handleSend_try_changes:
  "handleSend_try t res st = Inr st' \<Longrightarrow>
     results st' \<noteq> results st \<or> condition st' \<noteq> condition st \<Longrightarrow>
     \<not> truthy (get_opt res ''error'') \<and> \<not> nullish res"
  by (auto simp: handleSend_try_def get_def Let_def split: if_splits)

text \<open>
  Claim C4. When the input is not blank and the answer to the query has a truthy
  \<open>error\<close>, \<open>handleSend\<close> leaves \<open>results\<close> and \<open>condition\<close> as they were,
  sets the panel's error to that error and appends, after the user's message, a bot message
  flagged \<open>isError\<close> that shows it. Conversely \<open>results\<close> or \<open>condition\<close> change
  only when a request was posted and its answer had no truthy \<open>error\<close>.
\<close>

theorem failed_query_keeps_results:
  "(trim (input st) \<noteq> [] \<and> post (query_request (input st) r sid) = Inr res
      \<and> truthy (get_opt res ''error'')
    \<longrightarrow> (let out = handleSend post t0 t1 r sid st in
          results (state out) = results st \<and> condition (state out) = condition st
          \<and> error (state out) = get_opt res ''error''
          \<and> messages (state out) = messages st @
               [\<lparr>sender = User, text' = input st, timestamp = t0, isError = False,
                 count = Undefined\<rparr>,
                \<lparr>sender = Bot, text' = error_text (get_opt res ''error''), timestamp = t1,
                 isError = True, count = Undefined\<rparr>]
          \<and> loading (state out) = False \<and> escaped out = None))
   \<and> (results (state (handleSend post t0 t1 r sid st)) \<noteq> results st
        \<or> condition (state (handleSend post t0 t1 r sid st)) \<noteq> condition st
      \<longrightarrow> trim (input st) \<noteq> []
          \<and> (\<exists>ans. post (query_request (input st) r sid) = Inr ans
                 \<and> \<not> truthy (get_opt ans ''error'')))"
proof (intro conjI impI)
  assume a: "trim (input st) \<noteq> [] \<and> post (query_request (input st) r sid) = Inr res
      \<and> truthy (get_opt res ''error'')"
  then show "let out = handleSend post t0 t1 r sid st in
          results (state out) = results st \<and> condition (state out) = condition st
          \<and> error (state out) = get_opt res ''error''
          \<and> messages (state out) = messages st @
               [\<lparr>sender = User, text' = input st, timestamp = t0, isError = False,
                 count = Undefined\<rparr>,
                \<lparr>sender = Bot, text' = error_text (get_opt res ''error''), timestamp = t1,
                 isError = True, count = Undefined\<rparr>]
          \<and> loading (state out) = False \<and> escaped out = None"
    by (simp add: handleSend_def Let_def handleSend_try_error)
next
  let ?out = "handleSend post t0 t1 r sid st"
  assume c: "results (state ?out) \<noteq> results st \<or> condition (state ?out) \<noteq> condition st"
  show "trim (input st) \<noteq> []"
    using c by (auto simp: handleSend_def)
  then have ne: "trim (input st) \<noteq> []" .
  let ?st1 = "st\<lparr>error := JStr [],
                messages := messages st @
                  [\<lparr>sender = User, text' = input st, timestamp = t0, isError = False,
                    count = Undefined\<rparr>],
                input := [], loading := True\<rparr>"
  show "\<exists>ans. post (query_request (input st) r sid) = Inr ans \<and> \<not> truthy (get_opt ans ''error'')"
  proof (cases "post (query_request (input st) r sid)")
    case (Inl e)
    obtain st' esc where k: "handleSend_catch t1 e ?st1 = (st', esc)"
      by (cases "handleSend_catch t1 e ?st1")
    from handleSend_catch_frame [OF k] c ne Inl k show ?thesis
      by (simp add: handleSend_def Let_def)
  next
    case (Inr ans)
    show ?thesis
    proof (cases "handleSend_try t1 ans ?st1")
      case (Inl e)
      obtain st' esc where k: "handleSend_catch t1 e ?st1 = (st', esc)"
        by (cases "handleSend_catch t1 e ?st1")
      from handleSend_catch_frame [OF k] c ne Inr Inl k show ?thesis
        by (simp add: handleSend_def Let_def)
    next
      case tr: (Inr st')
      from c ne Inr tr have "results st' \<noteq> results ?st1 \<or> condition st' \<noteq> condition ?st1"
        by (simp add: handleSend_def Let_def)
      from handleSend_try_changes [OF tr this] Inr show ?thesis
        by simp
    qed
  qed
qed

text \<open>
  Claim C4 when the request times out: \<open>postQuery\<close> answers with an error, and the
  results and the condition of the example state stay. An answer without an error replaces
  the results.
\<close>

theorem failed_query_keeps_results_witness:
  "results (state (handleSend (\<lambda>req. postQuery ''T'' (Rejected timed_out)) 1 2
                     \<lparr>grade = JNum 8, class' = JStr ''A''\<rparr> ''s1'' example_state))
     = JArr [JObj asha]
   \<and> condition (state (handleSend (\<lambda>req. postQuery ''T'' (Rejected timed_out)) 1 2
                     \<lparr>grade = JNum 8, class' = JStr ''A''\<rparr> ''s1'' example_state))
     = JStr ''grade == 7''
   \<and> error (state (handleSend (\<lambda>req. postQuery ''T'' (Rejected timed_out)) 1 2
                     \<lparr>grade = JNum 8, class' = JStr ''A''\<rparr> ''s1'' example_state))
     = JStr ''Failed to process query''
   \<and> map isError (messages (state (handleSend (\<lambda>req. postQuery ''T'' (Rejected timed_out)) 1 2
                     \<lparr>grade = JNum 8, class' = JStr ''A''\<rparr> ''s1'' example_state)))
     = [False, True]
   \<and> results (state (handleSend (\<lambda>req. Inr ok_answer) 1 2
                     \<lparr>grade = JNum 8, class' = JStr ''A''\<rparr> ''s1'' example_state))
     = JArr [JObj ben]
   \<and> \<not> truthy (get_opt ok_answer ''error'')"
proof -
  let ?role = "\<lparr>grade = JNum 8, class' = JStr ''A''\<rparr>"
  let ?res = "failure_answer ''T'' (JStr ''Failed to process query'')"
  have p: "postQuery ''T'' (Rejected timed_out) = Inr ?res"
    by (simp add: postQuery_Rejected failure_error_def timed_out_def handleError_def
        get_opt_def getp_def js_or_def)
  have e: "get_opt ?res ''error'' = JStr ''Failed to process query''"
    by (simp add: failure_answer_def get_opt_def getp_def)
  have t: "trim (input example_state) \<noteq> []"
    by (simp add: example_state_def trim_def is_space_def)
  from failed_query_keeps_results
    [of example_state "\<lambda>req. postQuery ''T'' (Rejected timed_out)" ?role "''s1''" ?res 1 2,
      THEN conjunct1]
    p e t
  have a: "results (state (handleSend (\<lambda>req. postQuery ''T'' (Rejected timed_out)) 1 2
                     ?role ''s1'' example_state)) = JArr [JObj asha]
   \<and> condition (state (handleSend (\<lambda>req. postQuery ''T'' (Rejected timed_out)) 1 2
                     ?role ''s1'' example_state)) = JStr ''grade == 7''
   \<and> error (state (handleSend (\<lambda>req. postQuery ''T'' (Rejected timed_out)) 1 2
                     ?role ''s1'' example_state)) = JStr ''Failed to process query''
   \<and> map isError (messages (state (handleSend (\<lambda>req. postQuery ''T'' (Rejected timed_out)) 1 2
                     ?role ''s1'' example_state))) = [False, True]"
    by (simp add: Let_def example_state_def)
  have r: "results (state (handleSend (\<lambda>req. Inr ok_answer) 1 2 ?role ''s1'' example_state))
      = JArr [JObj ben]"
    by (simp add: handleSend_def handleSend_try_def get_def nullish_def ok_answer_def get_opt_def
        getp_def js_or_def Let_def t)
  then have "results (state (handleSend (\<lambda>req. Inr ok_answer) 1 2 ?role ''s1'' example_state))
      \<noteq> results example_state"
    by (simp add: example_state_def asha_def ben_def)
  with failed_query_keeps_results
    [of example_state "\<lambda>req. Inr ok_answer" ?role "''s1''" ?res 1 2, THEN conjunct2]
  have "\<not> truthy (get_opt ok_answer ''error'')"
    by auto
  with a r show ?thesis
    by (intro conjI) simp_all
qed

section \<open>Properties of the dashboard's aggregates\<close>

lemma first_seen_snoc:
  "first_seen (xs @ [x]) = (if x \<in> set xs then first_seen xs else first_seen xs @ [x])"
  by (simp add: first_seen_def)

lemma set_first_seen: "set (first_seen xs) = set xs"
  by (simp add: first_seen_def)

lemma first_seen_Nil: "first_seen [] = []"
  by (simp add: first_seen_def)

lemma map_fst_insort_key:
  "map fst (insort_key (\<lambda>e. f (fst e)) x xs) = insort_key f (fst x) (map fst xs)"
  by (induction xs) simp_all

lemma map_fst_sort_key:
  "map fst (sort_key (\<lambda>e. f (fst e)) xs) = sort_key f (map fst xs)"
  by (induction xs) (simp_all add: map_fst_insort_key)

lemma own_keys_key_order: "map fst (own_entries m) = key_order (map fst m)"
  by (simp add: own_entries_def key_order_def map_fst_sort_key filter_map comp_def)

lemma set_key_order: "set (key_order ks) = set ks"
  by (auto simp: key_order_def)

lemma key_order_plain: "\<forall>k \<in> set ks. \<not> is_array_index k \<Longrightarrow> key_order ks = ks"
  by (simp add: key_order_def filter_empty_conv)

lemma map_of_None_keys: "map_of m k = None \<longleftrightarrow> k \<notin> set (map fst m)"
  by (simp add: map_of_eq_None_iff)

lemma map_of_Some_key: "map_of m k = Some v \<Longrightarrow> k \<in> fst ` set m"
  by (auto dest: map_of_SomeD intro: rev_image_eqI)

lemma scores_step_keys:
  "map fst (scores_step m r) =
     (if row_class r = ''__proto__'' \<or> row_class r \<in> set (map fst m) then map fst m
      else map fst m @ [row_class r])"
  by (auto simp: scores_step_def Let_def update_keys map_of_None_keys split: option.splits
      dest: map_of_Some_key)

lemma byClass_step_keys:
  "map fst (byClass_step m r) =
     (if row_class r = ''__proto__'' \<or> row_class r \<in> set (map fst m) then map fst m
      else map fst m @ [row_class r])"
  by (auto simp: byClass_step_def Let_def update_keys map_of_None_keys
      split: option.splits tally.splits dest: map_of_Some_key)

lemma scores_map_keys:
  "map fst (scores_map rs) = first_seen (filter (\<lambda>k. k \<noteq> ''__proto__'') (map row_class rs))"
proof (induction rs rule: rev_induct)
  case Nil
  show ?case by (simp add: scores_map_def first_seen_Nil)
next
  case (snoc r rs)
  have "scores_map (rs @ [r]) = scores_step (scores_map rs) r"
    by (simp add: scores_map_def)
  then show ?case
    using snoc by (simp add: scores_step_keys first_seen_snoc set_first_seen)
qed

lemma byClass_keys:
  "map fst (foldl byClass_step [] rs)
     = first_seen (filter (\<lambda>k. k \<noteq> ''__proto__'') (map row_class rs))"
proof (induction rs rule: rev_induct)
  case Nil
  show ?case by (simp add: first_seen_Nil)
next
  case (snoc r rs)
  then show ?case
    by (simp add: byClass_step_keys first_seen_snoc set_first_seen)
qed

lemma scores_keys:
  "map fst (scores rs)
     = key_order (first_seen (filter (\<lambda>k. k \<noteq> ''__proto__'') (map row_class rs)))"
proof (cases "rs = []")
  case True
  then show ?thesis by (simp add: scores_def first_seen_Nil key_order_def)
next
  case False
  then have "map fst (scores rs) = map fst (own_entries (scores_map rs))"
    by (simp add: scores_def comp_def case_prod_unfold)
  then show ?thesis
    by (simp add: own_keys_key_order scores_map_keys)
qed

lemma set_update_subset: "set (AList.update k v m) \<subseteq> insert (k, v) (set m)"
  by (induction m) auto

lemma counted_add_one: "counted c \<Longrightarrow> counted (num_add c (Fin 1))"
  by (cases c) (simp_all add: counted_def)

lemma update_all:
  assumes "\<forall>e \<in> set m. P e" and "P (k, v)"
  shows "\<forall>e \<in> set (AList.update k v m). P e"
  using assms set_update_subset [of k v m] by auto

lemma scores_step_counted:
  assumes "\<forall>(k, t, c) \<in> set m. counted c"
  shows "\<forall>(k, t, c) \<in> set (scores_step m r). counted c"
proof (cases "map_of m (row_class r)")
  case None
  have n: "counted (num_add (Fin 0) (Fin 1))" "counted NaN"
    by (simp_all add: counted_def)
  have s: "scores_step m r = m
      \<or> scores_step m r = AList.update (row_class r) (NaN, NaN) m
      \<or> (\<exists>t. scores_step m r = AList.update (row_class r) (t, num_add (Fin 0) (Fin 1)) m)"
    by (auto simp add: scores_step_def Let_def None simp del: num_add.simps)
  then show ?thesis
  proof (elim disjE exE)
    assume "scores_step m r = m"
    with assms show ?thesis by simp
  next
    assume "scores_step m r = AList.update (row_class r) (NaN, NaN) m"
    then show ?thesis
      by (simp only:) (intro update_all assms, simp add: n counted_def)
  next
    fix t
    assume "scores_step m r = AList.update (row_class r) (t, num_add (Fin 0) (Fin 1)) m"
    then show ?thesis
      by (simp only:) (intro update_all assms, simp add: n counted_def)
  qed
next
  case (Some tc)
  obtain t c where tc: "tc = (t, c)" by (cases tc)
  from Some tc have "(row_class r, t, c) \<in> set m"
    by (auto dest: map_of_SomeD)
  with assms have "counted c" by auto
  then have "counted (num_add c (Fin 1))" by (rule counted_add_one)
  then show ?thesis
    unfolding scores_step_def Let_def Some tc option.case prod.case
    by (intro update_all assms) simp
qed

lemma scores_count_positive: "\<forall>(k, t, c) \<in> set (scores_map rs). counted c"
proof (induction rs rule: rev_induct)
  case Nil
  show ?case by (simp add: scores_map_def)
next
  case (snoc r rs)
  have "scores_map (rs @ [r]) = scores_step (scores_map rs) r"
    by (simp add: scores_map_def)
  with scores_step_counted [OF snoc] show ?case by simp
qed

lemma counted_nonzero: "counted c \<Longrightarrow> c \<noteq> Fin 0"
  by (auto simp: counted_def)

lemma scores_three:
  assumes "getp r1 ''class'' = JStr ''A''" "getp r1 ''quiz_score'' = JNum 80"
    and "getp r2 ''class'' = JStr ''A''" "getp r2 ''quiz_score'' = JNum 90"
    and "getp r3 ''class'' = JStr ''B''" "getp r3 ''quiz_score'' = JNum 70"
  shows "scores [r1, r2, r3] = [(''A'', Fin 85), (''B'', Fin 70)]"
proof -
  have c: "row_class r1 = ''A''" "row_class r2 = ''A''" "row_class r3 = ''B''"
    using assms by (simp_all add: row_class_def js_or_def)
  have q: "to_number (js_or (getp r1 ''quiz_score'') (JNum 0)) = Fin 80"
    "to_number (js_or (getp r2 ''quiz_score'') (JNum 0)) = Fin 90"
    "to_number (js_or (getp r3 ''quiz_score'') (JNum 0)) = Fin 70"
    using assms by (simp_all add: js_or_def)
  have m: "scores_map [r1, r2, r3] = [(''A'', Fin 170, Fin 2), (''B'', Fin 70, Fin 1)]"
    by (simp add: scores_map_def scores_step_def c q object_prototype_names_def)
  have i: "\<not> is_array_index ''A''" "\<not> is_array_index ''B''"
    by (simp_all add: is_array_index_def is_digit_def)
  have f: "\<lfloor>1701 / 2 :: rat\<rfloor> = 850" "\<lfloor>1401 / 2 :: rat\<rfloor> = 700"
    by (rule floor_unique; simp)+
  show ?thesis
    by (simp add: scores_def m own_entries_def i f)
qed

text \<open>
  Claim C2. For three rows whose classes are A, A, B and whose quiz scores are 80, 90, 70 the
  grouped averages are 85 for A and 70 for B, in this order. For every list of rows, each
  group of the output is the class of at least one row, so a class without rows does not
  appear; and no count of the accumulator is zero, so no average divides by zero. For no
  rows there are no groups.
\<close>

theorem grouped_average:
  "(getp r1 ''class'' = JStr ''A'' \<and> getp r1 ''quiz_score'' = JNum 80
    \<and> getp r2 ''class'' = JStr ''A'' \<and> getp r2 ''quiz_score'' = JNum 90
    \<and> getp r3 ''class'' = JStr ''B'' \<and> getp r3 ''quiz_score'' = JNum 70
    \<longrightarrow> scores [r1, r2, r3] = [(''A'', Fin 85), (''B'', Fin 70)])
   \<and> (\<forall>name \<in> fst ` set (scores rs). \<exists>r \<in> set rs. row_class r = name)
   \<and> (\<forall>(name, tot, cnt) \<in> set (scores_map rs). cnt \<noteq> Fin 0)
   \<and> scores [] = []"
proof -
  have 2: "\<exists>r \<in> set rs. row_class r = name" if "name \<in> fst ` set (scores rs)" for name
  proof -
    from that have "name \<in> set (map fst (scores rs))" by simp
    then have "name \<in> set (map row_class rs)"
      by (simp only: scores_keys set_key_order set_first_seen) simp
    then show ?thesis by auto
  qed
  have 3: "\<forall>(name, tot, cnt) \<in> set (scores_map rs). cnt \<noteq> Fin 0"
    using scores_count_positive [of rs] by (auto dest: counted_nonzero)
  show ?thesis
    using scores_three [of r1 r2 r3] 2 3 by (simp add: scores_def)
qed

text \<open>Claim C2 on the example rows: class C has no row and no group.\<close>

theorem grouped_average_witness:
  "scores example_rows = [(''A'', Fin 85), (''B'', Fin 70)]
   \<and> ''C'' \<notin> fst ` set (scores example_rows)
   \<and> (\<exists>r \<in> set example_rows. row_class r = ''B'')
   \<and> scores_map example_rows = [(''A'', Fin 170, Fin 2), (''B'', Fin 70, Fin 1)]"
proof -
  note th = grouped_average [of asha ben chen example_rows]
  have g: "getp asha ''class'' = JStr ''A'' \<and> getp asha ''quiz_score'' = JNum 80
    \<and> getp ben ''class'' = JStr ''A'' \<and> getp ben ''quiz_score'' = JNum 90
    \<and> getp chen ''class'' = JStr ''B'' \<and> getp chen ''quiz_score'' = JNum 70"
    by (simp add: example_defs getp_def)
  from th [THEN conjunct1] g have s: "scores [asha, ben, chen] = [(''A'', Fin 85), (''B'', Fin 70)]"
    by (rule mp)
  have m: "scores_map example_rows = [(''A'', Fin 170, Fin 2), (''B'', Fin 70, Fin 1)]"
    by (simp add: scores_map_def scores_step_def example_defs row_class_def getp_def js_or_def
        object_prototype_names_def)
  from s have "''B'' \<in> fst ` set (scores example_rows)"
    by (simp add: example_rows_def)
  with th [THEN conjunct2, THEN conjunct1] have b: "\<exists>r \<in> set example_rows. row_class r = ''B''"
    by (rule bspec)
  from s m b show ?thesis
    by (simp add: example_rows_def)
qed

text \<open>
  Claim C7, as the code has it. The group keys of both aggregates are the class labels in
  the order in which an object lists its keys: the labels that are array indices first, in
  ascending numeric order, then the other labels in the order of their first appearance
  (the label \<open>__proto__\<close> never becomes a key). So when no label is an array index the
  keys are in the order of first appearance.
\<close>

theorem group_keys_order:
  "map fst (byClass rs)
     = key_order (first_seen (filter (\<lambda>k. k \<noteq> ''__proto__'') (map row_class rs)))
   \<and> map fst (scores rs)
     = key_order (first_seen (filter (\<lambda>k. k \<noteq> ''__proto__'') (map row_class rs)))
   \<and> ((\<forall>r \<in> set rs. \<not> is_array_index (row_class r))
       \<longrightarrow> map fst (byClass rs)
             = first_seen (filter (\<lambda>k. k \<noteq> ''__proto__'') (map row_class rs))
         \<and> map fst (scores rs)
             = first_seen (filter (\<lambda>k. k \<noteq> ''__proto__'') (map row_class rs)))
   \<and> ((\<forall>r \<in> set rs. \<not> is_array_index (row_class r) \<and> row_class r \<noteq> ''__proto__'')
       \<longrightarrow> map fst (byClass rs) = first_seen (map row_class rs)
         \<and> map fst (scores rs) = first_seen (map row_class rs))"
proof -
  let ?ks = "first_seen (filter (\<lambda>k. k \<noteq> ''__proto__'') (map row_class rs))"
  have b: "map fst (byClass rs) = key_order ?ks"
    by (simp add: byClass_def own_keys_key_order byClass_keys)
  have s: "map fst (scores rs) = key_order ?ks"
    by (rule scores_keys)
  have p: "key_order ?ks = ?ks" if "\<forall>r \<in> set rs. \<not> is_array_index (row_class r)"
    using that by (intro key_order_plain) (auto simp: set_first_seen)
  have f: "filter (\<lambda>k. k \<noteq> ''__proto__'') (map row_class rs) = map row_class rs"
    if "\<forall>r \<in> set rs. \<not> is_array_index (row_class r) \<and> row_class r \<noteq> ''__proto__''"
    using that by (simp add: filter_id_conv)
  have 3: "map fst (byClass rs) = ?ks \<and> map fst (scores rs) = ?ks"
    if "\<forall>r \<in> set rs. \<not> is_array_index (row_class r)"
    using b s p [OF that] by simp
  have 4: "map fst (byClass rs) = first_seen (map row_class rs)
           \<and> map fst (scores rs) = first_seen (map row_class rs)"
    if h: "\<forall>r \<in> set rs. \<not> is_array_index (row_class r) \<and> row_class r \<noteq> ''__proto__''"
  proof -
    from h have "\<forall>r \<in> set rs. \<not> is_array_index (row_class r)" by simp
    from 3 [OF this] show ?thesis by (simp only: f [OF h])
  qed
  from b s 3 4 show ?thesis
    by (intro conjI impI) (assumption | simp only:)+
qed

text \<open>Claim C7 on the example rows, whose classes are A, A, B.\<close>

theorem group_keys_order_witness:
  "map fst (byClass example_rows) = [''A'', ''B''] \<and> map fst (scores example_rows) = [''A'', ''B'']
   \<and> first_seen (map row_class example_rows) = [''A'', ''B'']"
proof -
  have c: "map row_class example_rows = [''A'', ''A'', ''B'']"
    by (simp add: example_defs row_class_def getp_def js_or_def)
  have h: "\<forall>r \<in> set example_rows. \<not> is_array_index (row_class r) \<and> row_class r \<noteq> ''__proto__''"
    by (simp add: example_defs row_class_def getp_def js_or_def is_array_index_def is_digit_def)
  have f: "first_seen (map row_class example_rows) = [''A'', ''B'']"
    unfolding c by (simp add: first_seen_def)
  note th = group_keys_order [of example_rows, THEN conjunct2, THEN conjunct2, THEN conjunct2]
  from th h have "map fst (byClass example_rows) = first_seen (map row_class example_rows)
      \<and> map fst (scores example_rows) = first_seen (map row_class example_rows)"
    by (rule mp)
  then show ?thesis
    by (simp only: f)
qed

text \<open>
  Claim C7 as stated fails: for the class labels 10 and 9, first seen in this order, both
  aggregates list the group 9 before the group 10.
\<close>

theorem group_keys_order_counterexample:
  "map row_class numbered_rows = [''10'', ''9'']
   \<and> first_seen (map row_class numbered_rows) = [''10'', ''9'']
   \<and> map fst (byClass numbered_rows) = [''9'', ''10'']
   \<and> map fst (scores numbered_rows) = [''9'', ''10'']"
proof -
  have c: "map row_class numbered_rows = [''10'', ''9'']"
    by (simp add: numbered_rows_def row_class_def getp_def js_or_def)
  have i: "is_array_index ''10''" "is_array_index ''9''" "index_value ''10'' = 10"
    "index_value ''9'' = 9"
    by (simp_all add: is_array_index_def is_digit_def index_value_def)
  have k: "key_order [''10'', ''9''] = [''9'', ''10'']"
    by (simp add: key_order_def i)
  have b: "map fst (byClass numbered_rows) = [''9'', ''10'']"
    by (simp add: byClass_def own_keys_key_order byClass_keys c first_seen_def k)
  have s: "map fst (scores numbered_rows) = [''9'', ''10'']"
    by (simp add: scores_keys c first_seen_def k)
  show ?thesis
    by (simp add: c b s) (simp add: first_seen_def)
qed

section \<open>Properties of the query resolution core\<close>

lemma filter_rows_filter:
  "filter_rows t ds = Inr out \<Longrightarrow> out = filter (\<lambda>r. eval_tree t r = Inr True) ds"
  by (induction ds arbitrary: out) (auto split: sum.splits if_splits)

lemma scope_grade_tree_sound:
  "eval_tree (scope_grade_tree sc t) r = Inr True \<Longrightarrow>
     (\<forall>g. scope_grade sc = Some g \<longrightarrow> st_grade r = g) \<and> eval_tree t r = Inr True"
  by (auto simp: scope_grade_tree_def split: option.splits sum.splits if_splits)

lemma scope_class_tree_sound:
  "eval_tree (scope_class_tree sc t) r = Inr True \<Longrightarrow>
     (\<forall>c. scope_class_name sc = Some c \<longrightarrow> st_class_name r = c) \<and> eval_tree t r = Inr True"
  by (auto simp: scope_class_tree_def split: option.splits sum.splits if_splits)

lemma scope_trees_sound:
  "eval_tree (scope_grade_tree sc (scope_class_tree sc t)) r = Inr True \<Longrightarrow>
     (\<forall>g. scope_grade sc = Some g \<longrightarrow> st_grade r = g)
     \<and> (\<forall>c. scope_class_name sc = Some c \<longrightarrow> st_class_name r = c)"
  using scope_grade_tree_sound scope_class_tree_sound by blast

lemma scope_pool_sound:
  "scope_pool sc pool = Some t \<Longrightarrow> eval_tree t r = Inr True \<Longrightarrow>
     (\<forall>g. scope_grade sc = Some g \<longrightarrow> st_grade r = g)
     \<and> (\<forall>c. scope_class_name sc = Some c \<longrightarrow> st_class_name r = c)"
  by (cases pool)
     (auto simp: scope_pool_def dest: scope_trees_sound split: option.splits sum.splits if_splits)

lemma scope_pool_None:
  "scope_pool sc pool = None \<Longrightarrow> scope_grade sc = None \<and> scope_class_name sc = None"
  by (auto simp: scope_pool_def split: option.splits)

lemma rank_rows_subset:
  assumes "rank_rows spec pool = Inr out"
  shows "set out \<subseteq> set pool"
proof (cases pool)
  case Nil
  with assms show ?thesis by (simp add: rank_rows_def)
next
  case (Cons x xs)
  with assms obtain P where "out = filter P pool"
    by (auto simp: rank_rows_def Let_def split: option.splits simp del: filter.simps)
  then show ?thesis by simp
qed

text \<open>
  Claim C1. Whatever Condition the translator proposes, filter or ranking, every row of
  the result of the clamped query has the grade of the RoleScope when the scope names a
  grade, and the class name of the scope when it names one; the rows are rows of the data
  set and the count is their number.
\<close>

theorem scope_containment:
  assumes "resolve sc c ds = Inr res" and "r \<in> set (result_rows res)"
  shows "(\<forall>g. scope_grade sc = Some g \<longrightarrow> st_grade r = g)
         \<and> (\<forall>cn. scope_class_name sc = Some cn \<longrightarrow> st_class_name r = cn)
         \<and> r \<in> set ds \<and> result_count res = length (result_rows res)"
proof (cases c)
  case (FilterQuery t)
  let ?t = "scope_grade_tree sc (scope_class_tree sc t)"
  from assms(1) FilterQuery obtain out where
    f: "filter_rows ?t ds = Inr out" and res: "res = \<lparr>result_rows = out, result_count = length out\<rparr>"
    by (auto simp: resolve_def evaluate_def split: sum.splits)
  from filter_rows_filter [OF f] assms(2) res
  have "eval_tree ?t r = Inr True" "r \<in> set ds" by auto
  with scope_trees_sound [of sc t r] res show ?thesis by simp
next
  case (RankingQuery pool spec)
  from assms(1) RankingQuery obtain cands out where
    p: "(case scope_pool sc pool of None \<Rightarrow> Inr ds | Some t \<Rightarrow> filter_rows t ds) = Inr cands"
    and k: "rank_rows spec cands = Inr out"
    and res: "res = \<lparr>result_rows = out, result_count = length out\<rparr>"
    by (auto simp: resolve_def evaluate_def split: sum.splits)
  from rank_rows_subset [OF k] assms(2) res have rc: "r \<in> set cands" by auto
  show ?thesis
  proof (cases "scope_pool sc pool")
    case None
    with p rc scope_pool_None [OF None] res show ?thesis by simp
  next
    case (Some t)
    with p have "filter_rows t ds = Inr cands" by simp
    from filter_rows_filter [OF this] rc have "eval_tree t r = Inr True" "r \<in> set ds" by auto
    with scope_pool_sound [OF Some, of r] res show ?thesis by simp
  qed
qed

text \<open>
  Claim C1 for the scope grade 8, class A: a filter that asks for grade 9 or a score of at
  least 90, a ranking over the rows outside grade 8, and a ranking of the whole scope.
\<close>

theorem scope_containment_witness:
  "resolve grade8_classA
     (FilterQuery (Or (Pred Grade OpEq (NumV 9)) (Pred QuizScore OpGe (NumV 90)))) school
     = Inr \<lparr>result_rows = [pupil ''Ben'' 8 ''A'' 90, pupil ''Eli'' 8 ''A'' 90], result_count = 2\<rparr>
   \<and> resolve grade8_classA (RankingQuery (Some (Pred Grade OpNe (NumV 8)))
         \<lparr>rank_field = QuizScore, rank_direction = MaxOf, rank_limit = 1\<rparr>) school
     = Inr \<lparr>result_rows = [], result_count = 0\<rparr>
   \<and> resolve grade8_classA (RankingQuery None
         \<lparr>rank_field = QuizScore, rank_direction = MaxOf, rank_limit = 1\<rparr>) school
     = Inr \<lparr>result_rows = [pupil ''Ben'' 8 ''A'' 90, pupil ''Eli'' 8 ''A'' 90], result_count = 2\<rparr>
   \<and> st_grade (pupil ''Ben'' 8 ''A'' 90) = 8 \<and> st_class_name (pupil ''Ben'' 8 ''A'' 90) = ''A''"
proof -
  let ?top = "\<lparr>rank_field = QuizScore, rank_direction = MaxOf, rank_limit = 1\<rparr>"
  let ?res = "\<lparr>result_rows = [pupil ''Ben'' 8 ''A'' 90, pupil ''Eli'' 8 ''A'' 90], result_count = 2\<rparr>"
  have 1: "resolve grade8_classA
     (FilterQuery (Or (Pred Grade OpEq (NumV 9)) (Pred QuizScore OpGe (NumV 90)))) school
     = Inr \<lparr>result_rows = [pupil ''Ben'' 8 ''A'' 90, pupil ''Eli'' 8 ''A'' 90], result_count = 2\<rparr>"
    by (simp add: resolve_def evaluate_def grade8_classA_def scope_grade_tree_def
        scope_class_tree_def school_def pupil_def)
  have 2: "resolve grade8_classA (RankingQuery (Some (Pred Grade OpNe (NumV 8))) ?top) school
     = Inr \<lparr>result_rows = [], result_count = 0\<rparr>"
    by (simp add: resolve_def evaluate_def grade8_classA_def scope_pool_def scope_grade_tree_def
        scope_class_tree_def school_def pupil_def rank_rows_def)
  have 3: "resolve grade8_classA (RankingQuery None ?top) school = Inr ?res"
    by (simp add: resolve_def evaluate_def grade8_classA_def scope_pool_def school_def pupil_def
        rank_rows_def)
  have "pupil ''Ben'' 8 ''A'' 90 \<in> set (result_rows ?res)"
    by simp
  from scope_containment [OF 3 this]
  have "st_grade (pupil ''Ben'' 8 ''A'' 90) = 8 \<and> st_class_name (pupil ''Ben'' 8 ''A'' 90) = ''A''"
    by (simp add: grade8_classA_def)
  with 1 2 3 show ?thesis by simp
qed

end
